theory Spec2Isabelle
  imports Complex_Main "HOL-Library.Multiset"
begin

section \<open>Data model\<close>

text \<open>
  Embedding of the SMC trading engine (\<^verbatim>\<open>src/smc_engine\<close>).  Python floats are
  idealised as \<^typ>\<open>real\<close>; the two non-finite values the code tests for explicitly
  (\<^verbatim>\<open>np.inf\<close>, NaN) are separate constructors where the code can produce them.
  Rounding is not modelled: a float sum can absorb a small term that a real sum keeps, so
  no strict inequality between computed prices is derived below from the size of such a
  term.  Timestamps are integers (any strictly ordered label works).
\<close>

type_synonym timestamp = int

datatype side = Buy | Sell

text \<open>\<^verbatim>\<open>backtester.Trade\<close> (the \<^verbatim>\<open>meta\<close> dictionary is not modelled).\<close>

record trade =
  index :: nat
  entry_ts :: timestamp
  exit_ts :: timestamp
  trade_side :: side
  entry_price :: real
  exit_price :: real
  trade_size :: real
  pnl :: real
  fees :: real
  cum_equity :: real
  exit_reason :: string
  entry_balance :: real
  exit_balance :: real
  risk_amount :: real
  risk_pct :: real
  max_drawdown_at_exit :: real

text \<open>One row of the OHLC frame; \<^verbatim>\<open>bar_ts\<close> is its index label.\<close>

record bar =
  bar_ts :: timestamp
  bar_open :: real
  bar_high :: real
  bar_low :: real
  bar_close :: real

text \<open>
  One row of the signal frame a strategy returns
  (\<^verbatim>\<open>ts, signal, price, stop, tp, meta\<close>); of \<^verbatim>\<open>meta\<close> the reason string is kept.
\<close>

record signal =
  sig_ts :: timestamp
  sig_side :: side
  sig_price :: real
  sig_stop :: real
  sig_tp :: real
  sig_reason :: string

text \<open>The dictionary \<^verbatim>\<open>_enter_position\<close> appends to \<^verbatim>\<open>open_positions\<close>.\<close>

record position =
  pos_side :: side
  pos_entry_ts :: timestamp
  pos_entry_price :: real
  pos_size :: real
  pos_stop :: real
  pos_tp :: real
  pos_commission :: real
  pos_instrument_multiplier :: real
  pos_risk_amount :: real
  pos_risk_pct :: real

section \<open>Metrics engine (\<^verbatim>\<open>backtest/metrics.py\<close>)\<close>

text \<open>
  A float that may be \<^verbatim>\<open>np.inf\<close> or NaN: the intermediate \<^verbatim>\<open>profit_factor\<close>, and
  the result of a numpy division whose divisor may be 0.
\<close>

datatype xfloat = Fin real | PInf | NaN

fun isfinite :: "xfloat \<Rightarrow> bool" where
  "isfinite (Fin _) = True"
| "isfinite PInf = False"
| "isfinite NaN = False"

text \<open>
  \<^verbatim>\<open>MetricsResult\<close> without \<^verbatim>\<open>sharpe_ratio\<close> and \<^verbatim>\<open>monthly_returns\<close> (calendar
  resampling and a standard deviation, which no property below reads).
\<close>

record metrics_result =
  net_profit :: real
  total_return_pct :: real
  max_drawdown_pct :: real
  max_drawdown_abs :: real
  calmar_ratio :: real
  win_rate :: real
  profit_factor :: real
  expectancy :: real
  total_trades :: nat
  winning_trades :: nat
  losing_trades :: nat
  avg_win :: real
  avg_loss :: real
  largest_win :: real
  largest_loss :: real
  final_equity :: real

text \<open>\<^verbatim>\<open>Series.cummax()\<close>: running maximum, same length as the input.\<close>

fun cummax_from :: "real \<Rightarrow> real list \<Rightarrow> real list" where
  "cummax_from m [] = []"
| "cummax_from m (x # xs) = max m x # cummax_from (max m x) xs"

fun cummax :: "real list \<Rightarrow> real list" where
  "cummax [] = []"
| "cummax (x # xs) = x # cummax_from x xs"

text \<open>\<^verbatim>\<open>Series.min()\<close> / \<^verbatim>\<open>max()\<close> / \<^verbatim>\<open>mean()\<close> on a non-empty series.\<close>

definition series_min :: "real list \<Rightarrow> real" where
  "series_min xs = fold min (tl xs) (hd xs)"

definition series_max :: "real list \<Rightarrow> real" where
  "series_max xs = fold max (tl xs) (hd xs)"

definition series_mean :: "real list \<Rightarrow> real" where
  "series_mean xs = sum_list xs / real (length xs)"

text \<open>\<^verbatim>\<open>es - es.cummax()\<close>, then \<^verbatim>\<open>.min()\<close>; the callers test for emptiness first.\<close>

definition drawdown_min :: "real list \<Rightarrow> real" where
  "drawdown_min es = (if es = [] then 0 else series_min (map2 (-) es (cummax es)))"

text \<open>The unreported value of line 127: may be infinite.\<close>

definition raw_profit_factor :: "real \<Rightarrow> real \<Rightarrow> xfloat" where
  "raw_profit_factor gross_profit gross_loss =
     (if gross_loss > 0 then Fin (gross_profit / gross_loss)
      else (if gross_profit > 0 then PInf else Fin 0))"

definition gross_profit_of :: "trade list \<Rightarrow> real" where
  "gross_profit_of ts = (let wins = filter (\<lambda>p. p > 0) (map pnl ts)
                         in if wins \<noteq> [] then sum_list wins else 0)"

definition gross_loss_of :: "trade list \<Rightarrow> real" where
  "gross_loss_of ts = (let losses = filter (\<lambda>p. p < 0) (map pnl ts)
                       in if losses \<noteq> [] then \<bar>sum_list losses\<bar> else 0)"

definition calculate_metrics :: "trade list \<Rightarrow> real list \<Rightarrow> real \<Rightarrow> metrics_result" where
  "calculate_metrics trades_df equity_series initial_balance =
    (let final_eq = (if equity_series = [] then initial_balance else last equity_series) in
     if trades_df = [] then
       \<lparr> net_profit = final_eq - initial_balance,
         total_return_pct = (if initial_balance \<noteq> 0
                             then (final_eq - initial_balance) / initial_balance * 100 else 0),
         max_drawdown_pct = 0, max_drawdown_abs = 0, calmar_ratio = 0,
         win_rate = 0, profit_factor = 0, expectancy = 0,
         total_trades = 0, winning_trades = 0, losing_trades = 0,
         avg_win = 0, avg_loss = 0, largest_win = 0, largest_loss = 0,
         final_equity = final_eq \<rparr>
     else
       let n_trades = length trades_df;
           wins = filter (\<lambda>p. p > 0) (map pnl trades_df);
           losses = filter (\<lambda>p. p < 0) (map pnl trades_df);
           n_wins = length wins;
           n_losses = length losses;
           wr = (if n_trades > 0 then real n_wins / real n_trades * 100 else 0);
           np = sum_list (map pnl trades_df);
           ret = (if initial_balance \<noteq> 0
                  then (final_eq - initial_balance) / initial_balance * 100 else 0);
           pf = raw_profit_factor (gross_profit_of trades_df) (gross_loss_of trades_df);
           dd_abs = (if equity_series \<noteq> [] then drawdown_min equity_series else 0);
           peak_val = (if equity_series \<noteq> [] then series_max (cummax equity_series) else 0);
           dd_pct = (if equity_series \<noteq> [] \<and> peak_val \<noteq> 0
                     then \<bar>dd_abs\<bar> / peak_val * 100 else 0)
       in
       \<lparr> net_profit = np,
         total_return_pct = ret,
         max_drawdown_pct = dd_pct,
         max_drawdown_abs = \<bar>dd_abs\<bar>,
         calmar_ratio = (if dd_pct \<noteq> 0 then ret / dd_pct else 0),
         win_rate = wr,
         profit_factor = (case pf of Fin r \<Rightarrow> r | _ \<Rightarrow> 0),
         expectancy = (if n_trades > 0 then series_mean (map pnl trades_df) else 0),
         total_trades = n_trades, winning_trades = n_wins, losing_trades = n_losses,
         avg_win = (if wins \<noteq> [] then series_mean wins else 0),
         avg_loss = (if losses \<noteq> [] then series_mean losses else 0),
         largest_win = (if wins \<noteq> [] then series_max wins else 0),
         largest_loss = (if losses \<noteq> [] then series_min losses else 0),
         final_equity = final_eq \<rparr>)"

section \<open>Order fill simulator (\<^verbatim>\<open>backtest/simulator.py\<close>)\<close>

text \<open>
  The simulator draws from Python's module-level \<^verbatim>\<open>random\<close> generator.  Its state is
  made explicit as the sequence of values \<^verbatim>\<open>random.random()\<close> will return next; a draw
  returns the head and leaves the shifted sequence.  \<^verbatim>\<open>random.uniform(a, b)\<close> is
  \<^verbatim>\<open>a + (b - a) * random()\<close>.
\<close>

type_synonym rng = "nat \<Rightarrow> real"

definition random_uniform :: "real \<Rightarrow> real \<Rightarrow> rng \<Rightarrow> real \<times> rng" where
  "random_uniform a b g = (a + (b - a) * g 0, \<lambda>n. g (Suc n))"

record order_simulator =
  commission :: real
  slippage :: real
  spread :: real

definition half_spread :: "order_simulator \<Rightarrow> real" where
  "half_spread sim = spread sim / 2"

text \<open>
  \<^verbatim>\<open>simulate_fill\<close>.  The side is typed \<^verbatim>\<open>Literal["buy", "sell"]\<close>; the
  \<^verbatim>\<open>ValueError\<close> branch for any other string has no value of \<^typ>\<open>side\<close> to reach it.
\<close>

definition simulate_fill :: "order_simulator \<Rightarrow> side \<Rightarrow> real \<Rightarrow> bool \<Rightarrow> rng \<Rightarrow> real \<times> rng" where
  "simulate_fill sim sd price add_randomness g =
     (let (slip, g') = (if add_randomness
                        then (let (u, g1) = random_uniform 0.5 1.5 g in (slippage sim * u, g1))
                        else (slippage sim, g))
      in case sd of
           Buy \<Rightarrow> (price + slip + half_spread sim, g')
         | Sell \<Rightarrow> (price - slip - half_spread sim, g'))"

definition calculate_commission :: "order_simulator \<Rightarrow> real \<Rightarrow> real \<Rightarrow> real" where
  "calculate_commission sim price sz = commission sim * price * sz"

section \<open>Backtest loop (\<^verbatim>\<open>backtest/backtester.py\<close>)\<close>

text \<open>The constructor arguments of \<^verbatim>\<open>Backtester\<close> (the strategy apart).\<close>

record backtester =
  initial_balance :: real
  simulator :: order_simulator
  position_size :: real
  max_positions :: int
  instrument_multiplier :: real

text \<open>
  The mutable attributes of a \<^verbatim>\<open>Backtester\<close>, together with the state of the global
  random generator its simulator reads.
\<close>

record bt_state =
  balance :: real
  equity :: real
  trades :: "trade list"
  open_positions :: "position list"
  equity_curve_points :: "(timestamp \<times> real) list"
  rng_state :: rng

definition opposite :: "side \<Rightarrow> side" where
  "opposite sd = (case sd of Buy \<Rightarrow> Sell | Sell \<Rightarrow> Buy)"

definition position_pnl :: "real \<Rightarrow> position \<Rightarrow> real" where
  "position_pnl current_price pos =
     (case pos_side pos of
        Buy \<Rightarrow> (current_price - pos_entry_price pos) * pos_size pos * pos_instrument_multiplier pos
      | Sell \<Rightarrow> (pos_entry_price pos - current_price) * pos_size pos * pos_instrument_multiplier pos)"

definition calculate_open_pnl :: "bt_state \<Rightarrow> bar \<Rightarrow> real" where
  "calculate_open_pnl st b = sum_list (map (position_pnl (bar_close b)) (open_positions st))"

definition enter_position :: "backtester \<Rightarrow> bt_state \<Rightarrow> signal \<Rightarrow> bar \<Rightarrow> timestamp \<Rightarrow> bt_state" where
  "enter_position bt st sg b t =
     (let (fill_price, g') = simulate_fill (simulator bt) (sig_side sg) (sig_price sg) True (rng_state st);
          st1 = st\<lparr>rng_state := g'\<rparr>;
          stop_distance = \<bar>fill_price - sig_stop sg\<bar>
      in if stop_distance \<le> 0 then st1
         else if position_size bt \<le> 1 \<and> stop_distance * instrument_multiplier bt \<le> 0 then st1
         else
           let sz = (if position_size bt \<le> 1
                     then balance st * position_size bt / (stop_distance * instrument_multiplier bt)
                     else position_size bt);
               risk = (if position_size bt \<le> 1
                       then balance st * position_size bt
                       else stop_distance * sz * instrument_multiplier bt)
           in if sz \<le> 0 then st1
              else
                let commission_cost = calculate_commission (simulator bt) fill_price sz;
                    bal = balance st - commission_cost;
                    pos = \<lparr> pos_side = sig_side sg, pos_entry_ts = t,
                            pos_entry_price = fill_price, pos_size = sz,
                            pos_stop = sig_stop sg, pos_tp = sig_tp sg,
                            pos_commission = commission_cost,
                            pos_instrument_multiplier = instrument_multiplier bt,
                            pos_risk_amount = risk,
                            pos_risk_pct = (if bal > 0 then risk / max bal (1 / 10 ^ 12) else 0) \<rparr>
                in st1\<lparr>balance := bal, open_positions := open_positions st @ [pos]\<rparr>)"

definition exit_position :: "backtester \<Rightarrow> bt_state \<Rightarrow> position \<Rightarrow> bar \<Rightarrow> timestamp \<Rightarrow> string \<Rightarrow> bt_state" where
  "exit_position bt st pos b t reason =
     (let entry_bal = balance st + calculate_open_pnl st b;
          (exit_px, g') =
             (if reason = ''stop_loss'' then (pos_stop pos, rng_state st)
              else if reason = ''take_profit'' then (pos_tp pos, rng_state st)
              else simulate_fill (simulator bt) (opposite (pos_side pos)) (bar_close b) True (rng_state st));
          exit_commission = calculate_commission (simulator bt) exit_px (pos_size pos);
          p = position_pnl exit_px pos - exit_commission;
          bal = balance st + p;
          max_dd_at_exit = drawdown_min (map snd (equity_curve_points st));
          tr = \<lparr> index = length (trades st), entry_ts = pos_entry_ts pos, exit_ts = t,
                 trade_side = pos_side pos, entry_price = pos_entry_price pos,
                 exit_price = exit_px, trade_size = pos_size pos, pnl = p,
                 fees = pos_commission pos + exit_commission, cum_equity = bal,
                 exit_reason = reason, entry_balance = entry_bal, exit_balance = bal,
                 risk_amount = pos_risk_amount pos, risk_pct = pos_risk_pct pos,
                 max_drawdown_at_exit = \<bar>max_dd_at_exit\<bar> \<rparr>
      in st\<lparr>balance := bal, trades := trades st @ [tr],
             open_positions := remove1 pos (open_positions st), rng_state := g'\<rparr>)"

text \<open>The \<^verbatim>\<open>if\<close>/\<^verbatim>\<open>elif\<close> chain of \<^verbatim>\<open>_check_exits\<close> for one position.\<close>

definition exit_check :: "bar \<Rightarrow> position \<Rightarrow> string option" where
  "exit_check b pos =
     (if pos_side pos = Buy \<and> bar_low b \<le> pos_stop pos then Some ''stop_loss''
      else if pos_side pos = Sell \<and> bar_high b \<ge> pos_stop pos then Some ''stop_loss''
      else if pos_side pos = Buy \<and> bar_high b \<ge> pos_tp pos then Some ''take_profit''
      else if pos_side pos = Sell \<and> bar_low b \<le> pos_tp pos then Some ''take_profit''
      else None)"

text \<open>The loop of \<^verbatim>\<open>_check_exits\<close> runs over a copy of the open list.\<close>

fun check_exits_loop :: "backtester \<Rightarrow> bar \<Rightarrow> timestamp \<Rightarrow> position list \<Rightarrow> bt_state \<Rightarrow> bt_state" where
  "check_exits_loop bt b t [] st = st"
| "check_exits_loop bt b t (pos # rest) st =
     check_exits_loop bt b t rest
       (case exit_check b pos of
          None \<Rightarrow> st
        | Some reason \<Rightarrow> exit_position bt st pos b t reason)"

definition check_exits :: "backtester \<Rightarrow> bt_state \<Rightarrow> bar \<Rightarrow> timestamp \<Rightarrow> bt_state" where
  "check_exits bt st b t = check_exits_loop bt b t (open_positions st) st"

text \<open>
  \<^verbatim>\<open>signals_by_ts\<close>: rows grouped by timestamp with \<^verbatim>\<open>setdefault(ts, []).append(row)\<close>.
\<close>

fun group_signals :: "(timestamp \<rightharpoonup> signal list) \<Rightarrow> signal list \<Rightarrow> (timestamp \<rightharpoonup> signal list)" where
  "group_signals m [] = m"
| "group_signals m (row # rows) =
     group_signals (m(sig_ts row \<mapsto> (case m (sig_ts row) of None \<Rightarrow> [] | Some l \<Rightarrow> l) @ [row])) rows"

text \<open>The inner entry loop, with its \<^verbatim>\<open>break\<close> once the cap is reached.\<close>

fun enter_loop :: "backtester \<Rightarrow> bar \<Rightarrow> timestamp \<Rightarrow> signal list \<Rightarrow> bt_state \<Rightarrow> bt_state" where
  "enter_loop bt b t [] st = st"
| "enter_loop bt b t (row # rows) st =
     (if int (length (open_positions st)) \<ge> max_positions bt then st
      else enter_loop bt b t rows (enter_position bt st row b t))"

definition process_entries :: "backtester \<Rightarrow> (timestamp \<rightharpoonup> signal list) \<Rightarrow> bt_state \<Rightarrow> bar \<Rightarrow> timestamp \<Rightarrow> bt_state" where
  "process_entries bt signals_by_ts st b t =
     (if int (length (open_positions st)) < max_positions bt
      then (case signals_by_ts t of
              None \<Rightarrow> st
            | Some rows \<Rightarrow> enter_loop bt b t rows st)
      else st)"

text \<open>One iteration of the main loop, up to the equity-curve append.\<close>

definition process_bar :: "backtester \<Rightarrow> (timestamp \<rightharpoonup> signal list) \<Rightarrow> bt_state \<Rightarrow> bar \<Rightarrow> bt_state" where
  "process_bar bt signals_by_ts st b =
     (let t = bar_ts b;
          st1 = check_exits bt st b t;
          st2 = process_entries bt signals_by_ts st1 b t;
          eq = balance st2 + calculate_open_pnl st2 b
      in st2\<lparr>equity := eq, equity_curve_points := equity_curve_points st2 @ [(t, eq)]\<rparr>)"

definition depleted :: "bt_state \<Rightarrow> bool" where
  "depleted st \<longleftrightarrow> balance st \<le> 0 \<or> equity st \<le> 0"

text \<open>The main loop over the bars, with its early \<^verbatim>\<open>break\<close> on depletion.\<close>

fun run_loop :: "backtester \<Rightarrow> (timestamp \<rightharpoonup> signal list) \<Rightarrow> bar list \<Rightarrow> bt_state \<Rightarrow> bt_state" where
  "run_loop bt m [] st = st"
| "run_loop bt m (b # bs) st =
     (let st' = process_bar bt m st b
      in if depleted st' then st' else run_loop bt m bs st')"

text \<open>
  The states the main loop passes through, one per iteration (the state after the
  equity-curve append of that bar); \<^verbatim>\<open>run_loop\<close> ends in the last of them.
\<close>

fun run_states :: "backtester \<Rightarrow> (timestamp \<rightharpoonup> signal list) \<Rightarrow> bar list \<Rightarrow> bt_state \<Rightarrow> bt_state list" where
  "run_states bt m [] st = []"
| "run_states bt m (b # bs) st =
     (let st' = process_bar bt m st b
      in if depleted st' then [st'] else st' # run_states bt m bs st')"

text \<open>\<^verbatim>\<open>for pos in self.open_positions[:]: self._exit_position(pos, final_bar, final_ts, "end_of_data")\<close>\<close>

fun force_close_loop :: "backtester \<Rightarrow> bar \<Rightarrow> position list \<Rightarrow> bt_state \<Rightarrow> bt_state" where
  "force_close_loop bt fb [] st = st"
| "force_close_loop bt fb (pos # rest) st =
     force_close_loop bt fb rest (exit_position bt st pos fb (bar_ts fb) ''end_of_data'')"

text \<open>
  The force-close block after the loop: the bar is \<^verbatim>\<open>ohlc.iloc[-1]\<close>.  It is only
  reached with a position open, hence with a non-empty frame.
\<close>

definition force_close_all :: "backtester \<Rightarrow> bar list \<Rightarrow> bt_state \<Rightarrow> bt_state" where
  "force_close_all bt ohlc st =
     (if open_positions st \<noteq> [] then force_close_loop bt (last ohlc) (open_positions st) st
      else st)"

definition zero_metrics :: "real \<Rightarrow> metrics_result" where
  "zero_metrics final_eq =
     \<lparr> net_profit = 0, total_return_pct = 0, max_drawdown_pct = 0, max_drawdown_abs = 0,
       calmar_ratio = 0, win_rate = 0, profit_factor = 0, expectancy = 0,
       total_trades = 0, winning_trades = 0, losing_trades = 0,
       avg_win = 0, avg_loss = 0, largest_win = 0, largest_loss = 0,
       final_equity = final_eq \<rparr>"

text \<open>\<^verbatim>\<open>Backtester._calculate_metrics\<close>\<close>

definition bt_calculate_metrics :: "backtester \<Rightarrow> bt_state \<Rightarrow> real list \<Rightarrow> metrics_result" where
  "bt_calculate_metrics bt st equity_series =
     (if trades st = [] then zero_metrics (balance st)
      else calculate_metrics (trades st)
             (if equity_series \<noteq> [] then equity_series else map cum_equity (trades st))
             (initial_balance bt))"

record run_result =
  res_trades :: "trade list"
  res_metrics :: metrics_result
  res_equity_curve :: "(timestamp \<times> real) list"

definition empty_result :: "backtester \<Rightarrow> run_result" where
  "empty_result bt =
     \<lparr> res_trades = [], res_metrics = zero_metrics (initial_balance bt), res_equity_curve = [] \<rparr>"

datatype error = KeyError

text \<open>The attributes \<^verbatim>\<open>run\<close> resets before the loop; the generator state is not among them.\<close>

definition reset_state :: "backtester \<Rightarrow> bt_state \<Rightarrow> bt_state" where
  "reset_state bt st =
     st\<lparr>balance := initial_balance bt, trades := [], open_positions := [],
        equity_curve_points := []\<rparr>"

text \<open>The state in which \<^verbatim>\<open>run\<close> leaves the backtester (and the generator).\<close>

definition run_final_state :: "backtester \<Rightarrow> signal list \<Rightarrow> bar list \<Rightarrow> bt_state \<Rightarrow> bt_state" where
  "run_final_state bt signals ohlc st =
     (if signals = [] then st
      else force_close_all bt ohlc
             (run_loop bt (group_signals Map.empty signals) ohlc (reset_state bt st)))"

text \<open>
  \<^verbatim>\<open>Backtester.run\<close>, with the strategy's output \<^verbatim>\<open>signals\<close> as an argument (any
  \<^verbatim>\<open>Strategy\<close> may be plugged in).  With signals and an empty frame no point is
  recorded and \<^verbatim>\<open>pd.DataFrame([]).set_index("time")\<close> raises \<^verbatim>\<open>KeyError\<close>.
\<close>

definition run :: "backtester \<Rightarrow> signal list \<Rightarrow> bar list \<Rightarrow> bt_state \<Rightarrow> (error + run_result) \<times> bt_state" where
  "run bt signals ohlc st =
     (if signals = [] then (Inr (empty_result bt), st)
      else
        let st' = run_final_state bt signals ohlc st
        in if equity_curve_points st' = [] then (Inl KeyError, st')
           else (Inr \<lparr> res_trades = trades st',
                       res_metrics = bt_calculate_metrics bt st' (map snd (equity_curve_points st')),
                       res_equity_curve = equity_curve_points st' \<rparr>, st'))"

text \<open>The attributes right after \<^verbatim>\<open>Backtester.__init__\<close>, given the generator's state.\<close>

definition init_state :: "backtester \<Rightarrow> rng \<Rightarrow> bt_state" where
  "init_state bt g =
     \<lparr> balance = initial_balance bt, equity = initial_balance bt, trades = [],
       open_positions = [], equity_curve_points = [], rng_state = g \<rparr>"

section \<open>Structural primitives (\<^verbatim>\<open>core/smc_primitives.py\<close>)\<close>

datatype swing_kind = HIGH | LOW

datatype trend_direction = BULLISH | BEARISH | RANGING

text \<open>The \<^verbatim>\<open>Literal["bullish", "bearish"]\<close> of the zone and grab classes.\<close>

datatype direction = Bullish | Bearish

record swing_point =
  sp_index :: nat
  sp_timestamp :: timestamp
  sp_price :: real
  swing_type :: swing_kind

record market_structure =
  swings :: "swing_point list"
  trend :: trend_direction
  last_swing_high :: "swing_point option"
  last_swing_low :: "swing_point option"

record order_block =
  ob_type :: direction
  ob_start_idx :: nat
  ob_end_idx :: nat
  ob_start_ts :: timestamp
  ob_end_ts :: timestamp
  price_top :: real
  price_bottom :: real
  strength :: xfloat

record fair_value_gap =
  fvg_type :: direction
  fvg_start_idx :: nat
  fvg_end_idx :: nat
  fvg_start_ts :: timestamp
  fvg_end_ts :: timestamp
  gap_top :: real
  gap_bottom :: real
  size_pips :: real

record liquidity_grab =
  grab_type :: direction
  swing_idx :: nat
  grab_idx :: nat
  grab_timestamp :: timestamp
  swing_price :: real
  grab_price :: real
  reclaim_bars :: nat

text \<open>
  The strategy parameters, after the defaults of the \<^verbatim>\<open>params.get(key, default)\<close> calls
  have been applied.  \<^verbatim>\<open>lookback\<close> and \<^verbatim>\<open>atr_period\<close> are natural numbers:
  \<^verbatim>\<open>validate_params\<close> rejects a lookback below 10 and pandas rejects an \<^verbatim>\<open>ewm\<close> span
  below 1.  \<^verbatim>\<open>min_impulse_bars\<close> is taken to be at least 1 (its search space is 2 to 5).
\<close>

record params =
  lookback :: nat
  risk_reward :: real
  atr_period :: nat
  use_order_blocks :: bool
  use_fvg :: bool
  use_liquidity_grabs :: bool
  min_impulse_bars :: nat
  min_impulse_atr :: real
  ob_expansion_atr :: real
  max_age_bars :: nat
  strict_detection :: bool
  min_gap_atr :: real
  fvg_expand_atr :: real
  liquidity_grab_atr :: real

subsection \<open>Average true range\<close>

text \<open>
  Row 0 has no previous close; \<^verbatim>\<open>max(axis=1)\<close> skips the two NaN columns there.
\<close>

fun true_range_from :: "real \<Rightarrow> bar list \<Rightarrow> real list" where
  "true_range_from prev_close [] = []"
| "true_range_from prev_close (b # bs) =
     max (max \<bar>bar_high b - bar_low b\<bar> \<bar>bar_high b - prev_close\<bar>) \<bar>bar_low b - prev_close\<bar>
       # true_range_from (bar_close b) bs"

fun true_range :: "bar list \<Rightarrow> real list" where
  "true_range [] = []"
| "true_range (b # bs) = \<bar>bar_high b - bar_low b\<bar> # true_range_from (bar_close b) bs"

text \<open>\<^verbatim>\<open>ewm(span=period, adjust=False).mean()\<close> with \<open>\<alpha> = 2 / (span + 1)\<close>.\<close>

fun ewm_from :: "real \<Rightarrow> real \<Rightarrow> real list \<Rightarrow> real list" where
  "ewm_from \<alpha> y [] = []"
| "ewm_from \<alpha> y (x # xs) = ((1 - \<alpha>) * y + \<alpha> * x) # ewm_from \<alpha> ((1 - \<alpha>) * y + \<alpha> * x) xs"

fun ewm_mean :: "real \<Rightarrow> real list \<Rightarrow> real list" where
  "ewm_mean \<alpha> [] = []"
| "ewm_mean \<alpha> (x # xs) = x # ewm_from \<alpha> x xs"

text \<open>
  On real-valued bars the average true range is never NaN, so the \<^verbatim>\<open>isnan\<close> guards of
  the detectors and of the signal loop never fire and have no counterpart below.
\<close>

definition calculate_atr :: "bar list \<Rightarrow> nat \<Rightarrow> real list" where
  "calculate_atr ohlc period = ewm_mean (2 / (real period + 1)) (true_range ohlc)"

subsection \<open>Market structure\<close>

text \<open>
  \<^verbatim>\<open>rolling(2 * lookback + 1, center=True)\<close>: the window around \<open>k\<close>, defined only where it
  fits into the series (NaN elsewhere, and a comparison with NaN is false).
\<close>

definition rolling_window :: "real list \<Rightarrow> nat \<Rightarrow> nat \<Rightarrow> real list option" where
  "rolling_window xs lb k =
     (if lb \<le> k \<and> k + lb < length xs then Some (take (2 * lb + 1) (drop (k - lb) xs)) else None)"

text \<open>\<^verbatim>\<open>np.roll(xs, 1)[k]\<close> and \<^verbatim>\<open>np.roll(xs, -1)[k]\<close>: the neighbours, wrapping around.\<close>

definition roll_prev :: "real list \<Rightarrow> nat \<Rightarrow> real" where
  "roll_prev xs k = xs ! ((k + length xs - 1) mod length xs)"

definition roll_next :: "real list \<Rightarrow> nat \<Rightarrow> real" where
  "roll_next xs k = xs ! ((k + 1) mod length xs)"

definition is_swing_high :: "real list \<Rightarrow> nat \<Rightarrow> nat \<Rightarrow> bool" where
  "is_swing_high highs lb k \<longleftrightarrow>
     map_option series_max (rolling_window highs lb k) = Some (highs ! k)
     \<and> highs ! k > roll_prev highs k \<and> highs ! k > roll_next highs k"

definition is_swing_low :: "real list \<Rightarrow> nat \<Rightarrow> nat \<Rightarrow> bool" where
  "is_swing_low lows lb k \<longleftrightarrow>
     map_option series_min (rolling_window lows lb k) = Some (lows ! k)
     \<and> lows ! k < roll_prev lows k \<and> lows ! k < roll_next lows k"

text \<open>The trend from the last two swing highs and the last two swing lows.\<close>

definition classify_trend :: "swing_point list \<Rightarrow> swing_point list \<Rightarrow> trend_direction" where
  "classify_trend highs_seq lows_seq =
     (if length highs_seq \<ge> 2 \<and> length lows_seq \<ge> 2 then
        (if sp_price (last highs_seq) > sp_price (last (butlast highs_seq))
            \<and> sp_price (last lows_seq) > sp_price (last (butlast lows_seq)) then BULLISH
         else if sp_price (last highs_seq) < sp_price (last (butlast highs_seq))
            \<and> sp_price (last lows_seq) < sp_price (last (butlast lows_seq)) then BEARISH
         else RANGING)
      else RANGING)"

definition last_option :: "'a list \<Rightarrow> 'a option" where
  "last_option xs = (if xs = [] then None else Some (last xs))"

text \<open>The sort by index is stable: at one index the swing high comes first.\<close>

definition detect_market_structure :: "bar list \<Rightarrow> nat \<Rightarrow> market_structure" where
  "detect_market_structure ohlc lb =
     (if length ohlc < lb * 2 + 1
      then \<lparr> swings = [], trend = RANGING, last_swing_high = None, last_swing_low = None \<rparr>
      else
        let highs = map bar_high ohlc;
            lows = map bar_low ohlc;
            swing_highs = filter (is_swing_high highs lb) [0..<length ohlc];
            swing_lows = filter (is_swing_low lows lb) [0..<length ohlc];
            sws = sort_key sp_index
                    (map (\<lambda>i. \<lparr> sp_index = i, sp_timestamp = bar_ts (ohlc ! i),
                                 sp_price = highs ! i, swing_type = HIGH \<rparr>) swing_highs
                     @ map (\<lambda>i. \<lparr> sp_index = i, sp_timestamp = bar_ts (ohlc ! i),
                                   sp_price = lows ! i, swing_type = LOW \<rparr>) swing_lows);
            highs_seq = filter (\<lambda>s. swing_type s = HIGH) sws;
            lows_seq = filter (\<lambda>s. swing_type s = LOW) sws
        in \<lparr> swings = sws, trend = classify_trend highs_seq lows_seq,
             last_swing_high = last_option highs_seq, last_swing_low = last_option lows_seq \<rparr>)"

subsection \<open>Break of structure and change of character\<close>

text \<open>
  \<^verbatim>\<open>is_bos\<close>.  The fallback \<^verbatim>\<open>atr = 0.0001\<close> is for a NaN average true range, which
  real-valued bars never give.
\<close>

definition is_bos :: "bar list \<Rightarrow> swing_point \<Rightarrow> real \<Rightarrow> nat \<Rightarrow> bool" where
  "is_bos ohlc swing bos_margin_atr period =
     (if length ohlc < period then False
      else
        let margin = bos_margin_atr * last (calculate_atr ohlc period);
            c = bar_close (last ohlc)
        in if swing_type swing = HIGH then c > sp_price swing + margin
           else c < sp_price swing - margin)"

text \<open>
  \<^verbatim>\<open>detect_choch\<close> on a list of swings (the way the strategy calls it): the structure is
  rebuilt from the list, then the break against the trend is tested.  The result is a
  plain boolean.
\<close>

definition detect_choch :: "bar list \<Rightarrow> swing_point list \<Rightarrow> real \<Rightarrow> nat \<Rightarrow> bool" where
  "detect_choch ohlc swings_list bos_margin_atr period =
     (let highs_seq = filter (\<lambda>s. swing_type s = HIGH) swings_list;
          lows_seq = filter (\<lambda>s. swing_type s = LOW) swings_list;
          tr = classify_trend highs_seq lows_seq
      in if tr = RANGING then False
         else if tr = BULLISH \<and> lows_seq \<noteq> [] then is_bos ohlc (last lows_seq) bos_margin_atr period
         else if tr = BEARISH \<and> highs_seq \<noteq> [] then is_bos ohlc (last highs_seq) bos_margin_atr period
         else False)"

subsection \<open>Order blocks\<close>

text \<open>\<^verbatim>\<open>bullish = close > open\<close>, \<^verbatim>\<open>bearish = ~bullish\<close>.\<close>

definition bullish_candle :: "bar \<Rightarrow> bool" where
  "bullish_candle b \<longleftrightarrow> bar_close b > bar_open b"

text \<open>
  \<^verbatim>\<open>series[:i][::-1].idxmax()\<close> on a boolean series with a true entry: the position of
  the last true entry before \<open>i\<close> (timestamps are unique, so \<^verbatim>\<open>get_loc\<close> returns it).
\<close>

definition last_before :: "(bar \<Rightarrow> bool) \<Rightarrow> bar list \<Rightarrow> nat \<Rightarrow> nat option" where
  "last_before P ohlc i = List.find (\<lambda>j. P (ohlc ! j)) (rev [0..<i])"

text \<open>A numpy float division: no exception on a zero divisor.\<close>

definition np_div :: "real \<Rightarrow> real \<Rightarrow> xfloat" where
  "np_div x y = (if y \<noteq> 0 then Fin (x / y) else if x = 0 then NaN else PInf)"

definition add_block :: "params \<Rightarrow> bar list \<Rightarrow> nat \<Rightarrow> real \<Rightarrow> direction \<Rightarrow> nat \<Rightarrow> order_block" where
  "add_block p ohlc i current_atr block_type ob_idx =
     (let expansion = ob_expansion_atr p * current_atr;
          b = ohlc ! ob_idx;
          e = i + min_impulse_bars p - 1
      in \<lparr> ob_type = block_type, ob_start_idx = ob_idx, ob_end_idx = e,
           ob_start_ts = bar_ts b, ob_end_ts = bar_ts (ohlc ! e),
           price_top = (if strict_detection p then max (bar_open b) (bar_close b) + expansion
                        else bar_high b + expansion),
           price_bottom = (if strict_detection p then min (bar_open b) (bar_close b) - expansion
                           else bar_low b - expansion),
           strength = np_div \<bar>bar_close (ohlc ! e) - bar_open b\<bar> current_atr \<rparr>)"

text \<open>The blocks one iteration \<open>i\<close> of the scan appends (bullish impulse first).\<close>

definition order_blocks_at :: "params \<Rightarrow> bar list \<Rightarrow> real list \<Rightarrow> nat \<Rightarrow> order_block list" where
  "order_blocks_at p ohlc atr i =
     (let current_atr = atr ! i;
          impulse = take (min_impulse_bars p) (drop i ohlc);
          e = i + min_impulse_bars p - 1;
          bull =
            (if list_all bullish_candle impulse
                \<and> bar_high (ohlc ! e) - bar_low (ohlc ! i) \<ge> min_impulse_atr p * current_atr
             then (case last_before (\<lambda>b. \<not> bullish_candle b) ohlc i of
                     None \<Rightarrow> []
                   | Some ob_idx \<Rightarrow>
                       if i - ob_idx \<le> max_age_bars p
                       then [add_block p ohlc i current_atr Bullish ob_idx] else [])
             else []);
          bear =
            (if list_all (\<lambda>b. \<not> bullish_candle b) impulse
                \<and> bar_high (ohlc ! i) - bar_low (ohlc ! e) \<ge> min_impulse_atr p * current_atr
             then (case last_before bullish_candle ohlc i of
                     None \<Rightarrow> []
                   | Some ob_idx \<Rightarrow>
                       if i - ob_idx \<le> max_age_bars p
                       then [add_block p ohlc i current_atr Bearish ob_idx] else [])
             else [])
      in bull @ bear)"

definition find_order_blocks :: "bar list \<Rightarrow> params \<Rightarrow> order_block list" where
  "find_order_blocks ohlc p =
     (if length ohlc < atr_period p + min_impulse_bars p then []
      else concat (map (order_blocks_at p ohlc (calculate_atr ohlc (atr_period p)))
                     [atr_period p ..< length ohlc - min_impulse_bars p]))"

subsection \<open>Fair value gaps\<close>

text \<open>
  One iteration of the scan of \<^verbatim>\<open>find_fvg\<close>.  The constructor arguments are positional:
  type, start and end index, start and end timestamp, \<^verbatim>\<open>gap_top\<close>, \<^verbatim>\<open>gap_bottom\<close>,
  \<^verbatim>\<open>size_pips\<close>.
\<close>

definition fvg_at :: "params \<Rightarrow> bar list \<Rightarrow> real list \<Rightarrow> nat \<Rightarrow> fair_value_gap option" where
  "fvg_at p ohlc atr i =
     (let current_atr = atr ! i;
          expand = fvg_expand_atr p * current_atr;
          min_gap = min_gap_atr p * current_atr;
          high_i = bar_high (ohlc ! i); low_i2 = bar_low (ohlc ! (i + 2));
          low_i = bar_low (ohlc ! i); high_i2 = bar_high (ohlc ! (i + 2))
      in if high_i < low_i2 \<and> low_i2 - high_i \<ge> min_gap then
           Some \<lparr> fvg_type = Bullish, fvg_start_idx = i, fvg_end_idx = i + 2,
                  fvg_start_ts = bar_ts (ohlc ! i), fvg_end_ts = bar_ts (ohlc ! (i + 2)),
                  gap_top = low_i2 + expand, gap_bottom = high_i - expand,
                  size_pips = (low_i2 - high_i) * 10000 \<rparr>
         else if low_i > high_i2 \<and> low_i - high_i2 \<ge> min_gap then
           Some \<lparr> fvg_type = Bearish, fvg_start_idx = i, fvg_end_idx = i + 2,
                  fvg_start_ts = bar_ts (ohlc ! i), fvg_end_ts = bar_ts (ohlc ! (i + 2)),
                  gap_top = low_i + expand, gap_bottom = high_i2 - expand,
                  size_pips = (low_i - high_i2) * 10000 \<rparr>
         else None)"

definition find_fvg :: "bar list \<Rightarrow> params \<Rightarrow> fair_value_gap list" where
  "find_fvg ohlc p =
     (if length ohlc < atr_period p + 3 then []
      else List.map_filter (fvg_at p ohlc (calculate_atr ohlc (atr_period p)))
             [atr_period p ..< length ohlc - 2])"

subsection \<open>Liquidity grabs\<close>

text \<open>
  For one swing and one bar \<open>i\<close> after it: a breach beyond the threshold, then the first
  of the next \<^verbatim>\<open>grab_reclaim_bars\<close> bars that closes back through the swing price.
\<close>

definition grab_at :: "bar list \<Rightarrow> real list \<Rightarrow> real \<Rightarrow> nat \<Rightarrow> swing_point \<Rightarrow> nat \<Rightarrow> liquidity_grab option" where
  "grab_at ohlc atr lg_atr grab_reclaim_bars swing i =
     (let thresh = lg_atr * atr ! i;
          js = [i + 1 ..< min (i + grab_reclaim_bars + 1) (length ohlc)]
      in if swing_type swing = HIGH then
           (if bar_high (ohlc ! i) > sp_price swing + thresh then
              (case List.find (\<lambda>j. bar_close (ohlc ! j) < sp_price swing) js of
                 None \<Rightarrow> None
               | Some j \<Rightarrow> Some \<lparr> grab_type = Bearish, swing_idx = sp_index swing, grab_idx = i,
                                  grab_timestamp = bar_ts (ohlc ! i), swing_price = sp_price swing,
                                  grab_price = bar_high (ohlc ! i), reclaim_bars = j - i \<rparr>)
            else None)
         else
           (if bar_low (ohlc ! i) < sp_price swing - thresh then
              (case List.find (\<lambda>j. bar_close (ohlc ! j) > sp_price swing) js of
                 None \<Rightarrow> None
               | Some j \<Rightarrow> Some \<lparr> grab_type = Bullish, swing_idx = sp_index swing, grab_idx = i,
                                  grab_timestamp = bar_ts (ohlc ! i), swing_price = sp_price swing,
                                  grab_price = bar_low (ohlc ! i), reclaim_bars = j - i \<rparr>)
            else None))"

definition detect_liquidity_grab :: "bar list \<Rightarrow> swing_point list \<Rightarrow> real \<Rightarrow> nat \<Rightarrow> nat \<Rightarrow> liquidity_grab list" where
  "detect_liquidity_grab ohlc swings_list lg_atr grab_reclaim_bars period =
     (if length ohlc < period + grab_reclaim_bars then []
      else
        let atr = calculate_atr ohlc period
        in concat (map (\<lambda>swing.
             List.map_filter (grab_at ohlc atr lg_atr grab_reclaim_bars swing)
               [sp_index swing + 1 ..< min (sp_index swing + 1 + 50) (length ohlc)]) swings_list))"



section \<open>Signal generator (\<^verbatim>\<open>core/strategy.py\<close>)\<close>

text \<open>
  \<^verbatim>\<open>hasattr\<close> on the value \<^verbatim>\<open>detect_choch\<close> returns.  That value is a boolean (a Python
  \<^verbatim>\<open>bool\<close>, or the \<^verbatim>\<open>numpy.bool_\<close> of a float comparison); these are the public attributes
  of \<^verbatim>\<open>bool\<close>, and \<^verbatim>\<open>numpy.bool_\<close> has no \<^verbatim>\<open>is_bullish\<close> or \<^verbatim>\<open>is_bearish\<close> either.
\<close>

definition bool_attributes :: "string list" where
  "bool_attributes = [''real'', ''imag'', ''numerator'', ''denominator'', ''conjugate'',
     ''bit_length'', ''bit_count'', ''to_bytes'', ''from_bytes'', ''as_integer_ratio'',
     ''is_integer'']"

definition bool_hasattr :: "string \<Rightarrow> bool" where
  "bool_hasattr name \<longleftrightarrow> name \<in> set bool_attributes"

text \<open>
  \<^verbatim>\<open>(choch.is_bullish if hasattr(choch, "is_bullish") else False)
    or (recent_grab and recent_grab.type == "bullish")\<close>.
  Where the attribute would be read the model puts the flag itself.
\<close>

definition bullish_confirm :: "bool \<Rightarrow> liquidity_grab option \<Rightarrow> bool" where
  "bullish_confirm choch recent_grab \<longleftrightarrow>
     (if bool_hasattr ''is_bullish'' then choch else False)
     \<or> (case recent_grab of None \<Rightarrow> False | Some g \<Rightarrow> grab_type g = Bullish)"

definition bearish_confirm :: "bool \<Rightarrow> liquidity_grab option \<Rightarrow> bool" where
  "bearish_confirm choch recent_grab \<longleftrightarrow>
     (if bool_hasattr ''is_bearish'' then choch else False)
     \<or> (case recent_grab of None \<Rightarrow> False | Some g \<Rightarrow> grab_type g = Bearish)"

text \<open>The zone tests of the four inner loops.\<close>

definition ob_buy_match :: "nat \<Rightarrow> real \<Rightarrow> order_block \<Rightarrow> bool" where
  "ob_buy_match i low_now ob \<longleftrightarrow>
     \<not> (ob_type ob \<noteq> Bullish \<or> ob_end_idx ob \<ge> i)
     \<and> price_bottom ob \<le> low_now \<and> low_now \<le> price_top ob"

definition fvg_buy_match :: "nat \<Rightarrow> real \<Rightarrow> fair_value_gap \<Rightarrow> bool" where
  "fvg_buy_match i low_now g \<longleftrightarrow>
     \<not> (fvg_type g \<noteq> Bullish \<or> fvg_end_idx g \<ge> i)
     \<and> gap_bottom g \<le> low_now \<and> low_now \<le> gap_top g"

definition ob_sell_match :: "nat \<Rightarrow> real \<Rightarrow> order_block \<Rightarrow> bool" where
  "ob_sell_match i high_now ob \<longleftrightarrow>
     \<not> (ob_type ob \<noteq> Bearish \<or> ob_end_idx ob \<ge> i)
     \<and> price_bottom ob \<le> high_now \<and> high_now \<le> price_top ob"

definition fvg_sell_match :: "nat \<Rightarrow> real \<Rightarrow> fair_value_gap \<Rightarrow> bool" where
  "fvg_sell_match i high_now g \<longleftrightarrow>
     \<not> (fvg_type g \<noteq> Bearish \<or> fvg_end_idx g \<ge> i)
     \<and> gap_bottom g \<le> high_now \<and> high_now \<le> gap_top g"

text \<open>The signal rows the four loops append (\<open>risk\<close> is the local of that name).\<close>

definition buy_row :: "params \<Rightarrow> timestamp \<Rightarrow> real \<Rightarrow> real \<Rightarrow> string \<Rightarrow> signal" where
  "buy_row p t entry stop reason =
     (let risk = entry - stop
      in \<lparr> sig_ts = t, sig_side = Buy, sig_price = entry, sig_stop = stop,
           sig_tp = entry + risk * risk_reward p, sig_reason = reason \<rparr>)"

definition sell_row :: "params \<Rightarrow> timestamp \<Rightarrow> real \<Rightarrow> real \<Rightarrow> string \<Rightarrow> signal" where
  "sell_row p t entry stop reason =
     (let risk = stop - entry
      in \<lparr> sig_ts = t, sig_side = Sell, sig_price = entry, sig_stop = stop,
           sig_tp = entry - risk * risk_reward p, sig_reason = reason \<rparr>)"

text \<open>
  The bullish block of the loop body once the direction is confirmed: the order-block
  loop, then the gap loop.  Each stops at its first matching zone (\<^verbatim>\<open>break\<close>), appends one
  row and sets \<^verbatim>\<open>last_signal_bar\<close>.  The stop is the zone edge less \<open>0.3 * atr_now\<close>, here
  over the reals; in floating point a small \<open>0.3 * atr_now\<close> can be absorbed by the edge,
  and with \<open>atr_now = 0\<close> the stop is the edge itself in both.  The bearish block below
  mirrors it with the sum.
\<close>

definition bullish_entries ::
  "params \<Rightarrow> bar \<Rightarrow> nat \<Rightarrow> real \<Rightarrow> order_block list \<Rightarrow> fair_value_gap list
     \<Rightarrow> signal list \<times> int \<Rightarrow> signal list \<times> int" where
  "bullish_entries p b i atr_now order_blocks fvgs acc =
     (let acc1 = (case List.find (ob_buy_match i (bar_low b)) order_blocks of
                    None \<Rightarrow> acc
                  | Some ob \<Rightarrow>
                      (fst acc @ [buy_row p (bar_ts b) (bar_close b)
                                    (min (price_bottom ob) (bar_low b) - 0.3 * atr_now)
                                    ''OB+ChoCH/LQ''], int i))
      in (case List.find (fvg_buy_match i (bar_low b)) fvgs of
            None \<Rightarrow> acc1
          | Some g \<Rightarrow>
              (fst acc1 @ [buy_row p (bar_ts b) (bar_close b)
                             (gap_bottom g - 0.3 * atr_now) ''FVG+ChoCH/LQ''], int i)))"

definition bearish_entries ::
  "params \<Rightarrow> bar \<Rightarrow> nat \<Rightarrow> real \<Rightarrow> order_block list \<Rightarrow> fair_value_gap list
     \<Rightarrow> signal list \<times> int \<Rightarrow> signal list \<times> int" where
  "bearish_entries p b i atr_now order_blocks fvgs acc =
     (let acc1 = (case List.find (ob_sell_match i (bar_high b)) order_blocks of
                    None \<Rightarrow> acc
                  | Some ob \<Rightarrow>
                      (fst acc @ [sell_row p (bar_ts b) (bar_close b)
                                    (max (price_top ob) (bar_high b) + 0.3 * atr_now)
                                    ''OB+ChoCH/LQ''], int i))
      in (case List.find (fvg_sell_match i (bar_high b)) fvgs of
            None \<Rightarrow> acc1
          | Some g \<Rightarrow>
              (fst acc1 @ [sell_row p (bar_ts b) (bar_close b)
                             (gap_top g + 0.3 * atr_now) ''FVG+ChoCH/LQ''], int i)))"

text \<open>
  One iteration of the main signal loop on the pair (signals so far,
  \<^verbatim>\<open>last_signal_bar\<close>).  Each \<^verbatim>\<open>continue\<close> ends the iteration with what was appended before
  it.  \<^verbatim>\<open>detect_choch\<close> is called with its default margin 0.5 and period 14.
\<close>

definition eval_bar ::
  "params \<Rightarrow> bar list \<Rightarrow> real list \<Rightarrow> order_block list \<Rightarrow> fair_value_gap list
     \<Rightarrow> liquidity_grab list \<Rightarrow> nat \<Rightarrow> signal list \<times> int \<Rightarrow> signal list \<times> int" where
  "eval_bar p ohlc atr order_blocks fvgs liquidity_grabs i acc =
     (if int i - snd acc < 5 then acc
      else
        let df_slice = take (i + 1) ohlc;
            b = last df_slice;
            atr_now = atr ! i;
            ms = detect_market_structure df_slice (lookback p);
            choch = detect_choch df_slice (swings ms) 0.5 14;
            recent_grab = List.find (\<lambda>g. grab_idx g = i) liquidity_grabs;
            bull = (trend ms = BULLISH \<or> trend ms = RANGING);
            bear = (trend ms = BEARISH \<or> trend ms = RANGING)
        in if bull \<and> \<not> bullish_confirm choch recent_grab then acc
           else
             let acc1 = (if bull then bullish_entries p b i atr_now order_blocks fvgs acc else acc)
             in if bear then
                  (if \<not> bearish_confirm choch recent_grab then acc1
                   else bearish_entries p b i atr_now order_blocks fvgs acc1)
                else acc1)"

definition generate_signals :: "params \<Rightarrow> bar list \<Rightarrow> signal list" where
  "generate_signals p ohlc =
     (let min_bars = max (lookback p) (atr_period p) + 10
      in if length ohlc < min_bars then []
         else
           let atr = calculate_atr ohlc (atr_period p);
               order_blocks = (if use_order_blocks p then find_order_blocks ohlc p else []);
               fvgs = (if use_fvg p then find_fvg ohlc p else []);
               liquidity_grabs =
                 (if use_liquidity_grabs p
                  then detect_liquidity_grab ohlc (swings (detect_market_structure ohlc (lookback p)))
                         (liquidity_grab_atr p) 3 (atr_period p)
                  else [])
           in fst (fold (eval_bar p ohlc atr order_blocks fvgs liquidity_grabs)
                     [min_bars ..< length ohlc] ([], - 9999)))"

text \<open>The \<^verbatim>\<open>risk\<close> a signal row was computed from.\<close>

definition signal_risk :: "signal \<Rightarrow> real" where
  "signal_risk s = (case sig_side s of Buy \<Rightarrow> sig_price s - sig_stop s
                                     | Sell \<Rightarrow> sig_stop s - sig_price s)"

section \<open>Predicates used in the statements\<close>

text \<open>A bar whose close lies between its low and its high.\<close>

definition well_formed_bar :: "bar \<Rightarrow> bool" where
  "well_formed_bar b \<longleftrightarrow> bar_low b \<le> bar_close b \<and> bar_close b \<le> bar_high b"



section \<open>Concrete data used to exercise the definitions\<close>

text \<open>A closed trade with profit-and-loss \<open>p\<close>; the metrics engine reads no other column.\<close>

definition sample_trade :: "real \<Rightarrow> trade" where
  "sample_trade p =
     \<lparr> index = 0, entry_ts = 0, exit_ts = 1, trade_side = Buy, entry_price = 1,
       exit_price = 1, trade_size = 1, pnl = p, fees = 0, cum_equity = 0,
       exit_reason = ''take_profit'', entry_balance = 0, exit_balance = 0,
       risk_amount = 0, risk_pct = 0, max_drawdown_at_exit = 0 \<rparr>"



text \<open>Bars, a backtester with a fixed unit size and no trading costs, and one buy signal.\<close>

definition mk_bar :: "timestamp \<Rightarrow> real \<Rightarrow> real \<Rightarrow> real \<Rightarrow> real \<Rightarrow> bar" where
  "mk_bar t o' h l c = \<lparr> bar_ts = t, bar_open = o', bar_high = h, bar_low = l, bar_close = c \<rparr>"

definition bt_units :: backtester where
  "bt_units = \<lparr> initial_balance = 10000,
                simulator = \<lparr> commission = 0, slippage = 0, spread = 0 \<rparr>,
                position_size = 2, max_positions = 1, instrument_multiplier = 100000 \<rparr>"

definition buy_signal :: signal where
  "buy_signal = \<lparr> sig_ts = 0, sig_side = Buy, sig_price = 11/10, sig_stop = 1, sig_tp = 13/10,
                  sig_reason = ''OB+ChoCH/LQ'' \<rparr>"

text \<open>
  Three bars: the position opened on the first is 12000 under water at the close of the
  second (above its stop), and the third closes higher.
\<close>

definition depleting_bars :: "bar list" where
  "depleting_bars = [mk_bar 0 (11/10) (11/10) (11/10) (11/10),
                     mk_bar 1 (11/10) (11/10) (104/100) (104/100),
                     mk_bar 2 (104/100) (12/10) (104/100) (12/10)]"

text \<open>A generator whose every draw is \<open>1/2\<close>, so that \<^verbatim>\<open>uniform(0.5, 1.5)\<close> is 1.\<close>

definition steady_rng :: rng where
  "steady_rng = (\<lambda>n. 1/2)"

text \<open>The same signal one bar later, so that nothing is entered on the first bar.\<close>

definition late_signal :: signal where
  "late_signal = buy_signal\<lparr>sig_ts := 1\<rparr>"

text \<open>What the run over \<open>depleting_bars\<close> returns.\<close>

definition depleting_result :: run_result where
  "depleting_result =
     \<lparr> res_trades =
        [\<lparr> index = 0, entry_ts = 0, exit_ts = 2, trade_side = Buy,
            entry_price = 11 / 10, exit_price = 6 / 5, trade_size = 2,
            pnl = 20000, fees = 0, cum_equity = 30000,
            exit_reason = ''end_of_data'', entry_balance = 30000,
            exit_balance = 30000, risk_amount = 20000, risk_pct = 2,
            max_drawdown_at_exit = 12000 \<rparr>],
       res_metrics =
          \<lparr> net_profit = 20000, total_return_pct = - 120,
             max_drawdown_pct = 120, max_drawdown_abs = 12000,
             calmar_ratio = - 1, win_rate = 100, profit_factor = 0,
             expectancy = 20000, total_trades = 1, winning_trades = 1,
             losing_trades = 0, avg_win = 20000, avg_loss = 0,
             largest_win = 20000, largest_loss = 0, final_equity = - 2000 \<rparr>,
       res_equity_curve = [(0, 10000), (1, - 2000)] \<rparr>"





text \<open>
  A backtester with slippage, two quiet bars, and a generator whose first draw differs
  from the later ones.
\<close>

definition bt_slip :: backtester where
  "bt_slip = \<lparr> initial_balance = 10000,
               simulator = \<lparr> commission = 0, slippage = 1/100, spread = 0 \<rparr>,
               position_size = 2, max_positions = 1, instrument_multiplier = 1 \<rparr>"

definition quiet_bars :: "bar list" where
  "quiet_bars = [mk_bar 0 (11/10) (11/10) (11/10) (11/10),
                 mk_bar 1 (11/10) (12/10) (11/10) (12/10)]"

definition uneven_rng :: rng where
  "uneven_rng = (\<lambda>n. if n = 0 then 0 else 1/2)"

text \<open>Parameters with the defaults of the detectors and an ATR period of 1.\<close>

definition example_params :: params where
  "example_params =
     \<lparr> lookback = 10, risk_reward = 2, atr_period = 1,
       use_order_blocks = True, use_fvg = True, use_liquidity_grabs = True,
       min_impulse_bars = 3, min_impulse_atr = 2, ob_expansion_atr = 1/2,
       max_age_bars = 100, strict_detection = True,
       min_gap_atr = 1/2, fvg_expand_atr = 1/5, liquidity_grab_atr = 1 \<rparr>"



text \<open>The same parameters with a liquidity-grab threshold of half the ATR.\<close>

definition grab_params :: params where
  "grab_params = example_params\<lparr>liquidity_grab_atr := 1/2\<rparr>"

text \<open>
  27 bars.  Bar 0 is a bearish candle before the three rising bars 1 to 3 (a bullish order
  block with zone 94 to 97, and a bullish gap between the high of bar 1 and the low of bar 3
  with zone 96.6 to 99.4).  Bar 14 is a swing low at 100.  Bar 25 dips to 96.8, inside both
  zones, and bar 26 closes back above 100: a bullish liquidity grab at bar 25.
\<close>

definition two_zone_bars :: "bar list" where
  "two_zone_bars =
    [mk_bar 0 96 96 95 95,
     mk_bar 1 95 97 95 97,
     mk_bar 2 97 100 97 100,
     mk_bar 3 100 103 99 103,
     mk_bar 4 103 104 102 103,
     mk_bar 5 103 104 102 103,
     mk_bar 6 103 104 102 103,
     mk_bar 7 103 104 102 103,
     mk_bar 8 103 104 102 103,
     mk_bar 9 103 104 102 103,
     mk_bar 10 103 104 102 103,
     mk_bar 11 103 104 102 103,
     mk_bar 12 103 104 102 103,
     mk_bar 13 103 104 101 102,
     mk_bar 14 102 103 100 102,
     mk_bar 15 102 104 101 103,
     mk_bar 16 103 104 102 103,
     mk_bar 17 103 104 102 103,
     mk_bar 18 103 104 102 103,
     mk_bar 19 103 104 102 103,
     mk_bar 20 103 104 102 103,
     mk_bar 21 103 104 102 103,
     mk_bar 22 103 104 102 103,
     mk_bar 23 103 104 102 103,
     mk_bar 24 103 104 102 102,
     mk_bar 25 102 102 (484/5) 98,
     mk_bar 26 98 102 98 101]"

definition two_zone_signals :: "signal list" where
  "two_zone_signals =
     [\<lparr> sig_ts = 25, sig_side = Buy, sig_price = 98, sig_stop = 2311 / 25,
         sig_tp = 2728 / 25, sig_reason = ''OB+ChoCH/LQ'' \<rparr>,
      \<lparr> sig_ts = 25, sig_side = Buy, sig_price = 98, sig_stop = 2376 / 25,
         sig_tp = 2598 / 25, sig_reason = ''FVG+ChoCH/LQ'' \<rparr>]"

text \<open>
  37 bars with swing lows at bars 10 (100) and 21 (108) and swing highs at bars 15 (115)
  and 26 (120), hence a bullish trend; the last bar closes at 104, below the last swing
  low by more than the margin, with its low 103.5 inside the bullish gap left between
  bars 9 and 11.  No liquidity grab occurs anywhere.
\<close>

definition choch_bars :: "bar list" where
  "choch_bars =
    [mk_bar 0 111 111 110 110,
     mk_bar 1 110 110 109 109,
     mk_bar 2 109 109 108 108,
     mk_bar 3 108 108 107 107,
     mk_bar 4 107 107 106 106,
     mk_bar 5 106 106 105 105,
     mk_bar 6 105 105 104 104,
     mk_bar 7 104 104 103 103,
     mk_bar 8 103 103 102 102,
     mk_bar 9 102 102 101 101,
     mk_bar 10 101 101 100 101,
     mk_bar 11 109 111 109 111,
     mk_bar 12 111 113 111 113,
     mk_bar 13 113 114 112 114,
     mk_bar 14 114 (229/2) 113 114,
     mk_bar 15 114 115 113 114,
     mk_bar 16 114 114 112 112,
     mk_bar 17 112 113 111 111,
     mk_bar 18 111 112 110 110,
     mk_bar 19 110 111 109 (219/2),
     mk_bar 20 (219/2) 110 109 109,
     mk_bar 21 109 110 108 109,
     mk_bar 22 109 111 109 111,
     mk_bar 23 111 113 110 113,
     mk_bar 24 113 114 112 114,
     mk_bar 25 114 (229/2) 113 114,
     mk_bar 26 114 120 114 119,
     mk_bar 27 (235/2) (235/2) 116 116,
     mk_bar 28 116 116 114 114,
     mk_bar 29 114 114 112 112,
     mk_bar 30 112 112 110 110,
     mk_bar 31 110 110 109 109,
     mk_bar 32 109 109 (217/2) (217/2),
     mk_bar 33 (217/2) (217/2) 107 107,
     mk_bar 34 107 107 106 106,
     mk_bar 35 106 106 105 105,
     mk_bar 36 105 105 (207/2) 104]"

text \<open>
  28 bars like \<open>two_zone_bars\<close>, except that bar 25 closes on its low 96.6, the bottom of
  the gap zone, and bar 26 is flat at that price (so its true range is 0) before bar 27
  closes back above the swing low: the liquidity grab is at bar 26.
\<close>

definition flat_touch_bars :: "bar list" where
  "flat_touch_bars =
    [mk_bar 0 96 96 95 95,
     mk_bar 1 95 97 95 97,
     mk_bar 2 97 100 97 100,
     mk_bar 3 100 103 99 103,
     mk_bar 4 103 104 102 103,
     mk_bar 5 103 104 102 103,
     mk_bar 6 103 104 102 103,
     mk_bar 7 103 104 102 103,
     mk_bar 8 103 104 102 103,
     mk_bar 9 103 104 102 103,
     mk_bar 10 103 104 102 103,
     mk_bar 11 103 104 102 103,
     mk_bar 12 103 104 102 103,
     mk_bar 13 103 104 101 102,
     mk_bar 14 102 103 100 102,
     mk_bar 15 102 104 101 103,
     mk_bar 16 103 104 102 103,
     mk_bar 17 103 104 102 103,
     mk_bar 18 103 104 102 103,
     mk_bar 19 103 104 102 103,
     mk_bar 20 103 104 102 103,
     mk_bar 21 103 104 102 103,
     mk_bar 22 103 104 102 103,
     mk_bar 23 103 104 102 103,
     mk_bar 24 103 104 102 102,
     mk_bar 25 102 102 (483/5) (483/5),
     mk_bar 26 (483/5) (483/5) (483/5) (483/5),
     mk_bar 27 (483/5) 101 (483/5) 101]"

definition flat_touch_signals :: "signal list" where
  "flat_touch_signals =
     [\<lparr> sig_ts = 26, sig_side = Buy, sig_price = 483 / 5, sig_stop = 94,
         sig_tp = 509 / 5, sig_reason = ''OB+ChoCH/LQ'' \<rparr>,
      \<lparr> sig_ts = 26, sig_side = Buy, sig_price = 483 / 5, sig_stop = 483 / 5,
         sig_tp = 483 / 5, sig_reason = ''FVG+ChoCH/LQ'' \<rparr>]"



section \<open>Properties of the metrics engine\<close>

lemma profit_factor_calculate:
  "profit_factor (calculate_metrics ts es b) =
     (if ts = [] then 0
      else case raw_profit_factor (gross_profit_of ts) (gross_loss_of ts) of
             Fin r \<Rightarrow> r | _ \<Rightarrow> 0)"
  by (simp add: calculate_metrics_def Let_def)

lemma total_trades_calculate: "total_trades (calculate_metrics ts es b) = length ts"
  by (simp add: calculate_metrics_def Let_def)

lemma win_rate_calculate:
  "win_rate (calculate_metrics ts es b) =
     (if ts = [] then 0
      else real (length (filter (\<lambda>p. p > 0) (map pnl ts))) / real (length ts) * 100)"
  by (simp add: calculate_metrics_def Let_def)

lemma sum_list_negative: "xs \<noteq> [] \<Longrightarrow> \<forall>x \<in> set xs. x < 0 \<Longrightarrow> sum_list xs < (0::real)"
proof (induction xs)
  case Nil
  then show ?case by simp
next
  case (Cons x xs)
  then show ?case by (cases "xs = []") (auto intro: add_neg_neg)
qed

lemma sum_list_positive: "xs \<noteq> [] \<Longrightarrow> \<forall>x \<in> set xs. 0 < x \<Longrightarrow> 0 < sum_list xs"
  for xs :: "real list"
proof (induction xs)
  case Nil
  then show ?case by simp
next
  case (Cons x xs)
  then show ?case by (cases "xs = []") (auto intro: add_pos_pos)
qed

lemma losses_sum:
  assumes "\<exists>t \<in> set ts. pnl t < 0"
  shows "sum_list (filter (\<lambda>p. p < 0) (map pnl ts)) < 0"
proof -
  have "filter (\<lambda>p. p < 0) (map pnl ts) \<noteq> []"
    using assms by (auto simp: filter_empty_conv)
  then show ?thesis by (rule sum_list_negative) simp
qed

lemma wins_sum:
  assumes "\<exists>t \<in> set ts. 0 < pnl t"
  shows "0 < sum_list (filter (\<lambda>p. 0 < p) (map pnl ts))"
proof -
  have "filter (\<lambda>p. 0 < p) (map pnl ts) \<noteq> []"
    using assms by (auto simp: filter_empty_conv)
  then show ?thesis by (rule sum_list_positive) simp
qed

lemma gross_loss_explicit:
  "gross_loss_of ts = \<bar>sum_list (filter (\<lambda>p. p < 0) (map pnl ts))\<bar>"
  by (simp add: gross_loss_of_def Let_def)

lemma gross_profit_explicit:
  "gross_profit_of ts = sum_list (filter (\<lambda>p. 0 < p) (map pnl ts))"
  by (simp add: gross_profit_of_def Let_def)

text \<open>
  C9.  The reported profit factor is gross profit over gross loss, that is the sum of the
  positive trade results over the absolute value of the sum of the negative ones,
  whenever some trade lost; it is exactly 0 when there are no trades, and 0 (the infinite
  intermediate value is replaced) when some trade won and none lost; the win rate is
  exactly 0 when the number of trades is 0.  The backtester's own shortcut for an empty
  ledger and its empty result report 0 for both as well.
\<close>

theorem C9_profit_factor_convention:
  "((\<exists>t \<in> set ts. pnl t < 0) \<longrightarrow>
      0 < \<bar>sum_list (filter (\<lambda>p. p < 0) (map pnl ts))\<bar>
      \<and> profit_factor (calculate_metrics ts es b) =
          sum_list (filter (\<lambda>p. 0 < p) (map pnl ts))
            / \<bar>sum_list (filter (\<lambda>p. p < 0) (map pnl ts))\<bar>)
   \<and> profit_factor (calculate_metrics [] es b) = 0
   \<and> ((\<forall>t \<in> set ts. \<not> pnl t < 0) \<and> (\<exists>t \<in> set ts. 0 < pnl t) \<longrightarrow>
      raw_profit_factor (sum_list (filter (\<lambda>p. 0 < p) (map pnl ts)))
         \<bar>sum_list (filter (\<lambda>p. p < 0) (map pnl ts))\<bar> = PInf
      \<and> profit_factor (calculate_metrics ts es b) = 0)
   \<and> (total_trades (calculate_metrics ts es b) = 0 \<longrightarrow>
      win_rate (calculate_metrics ts es b) = 0)
   \<and> (trades st = [] \<longrightarrow>
      profit_factor (bt_calculate_metrics bt st es) = 0
      \<and> win_rate (bt_calculate_metrics bt st es) = 0)
   \<and> profit_factor (res_metrics (empty_result bt)) = 0
   \<and> win_rate (res_metrics (empty_result bt)) = 0"
proof -
  let ?wins = "sum_list (filter (\<lambda>p. 0 < p) (map pnl ts))"
  let ?losses = "sum_list (filter (\<lambda>p. p < 0) (map pnl ts))"
  have a: "(\<exists>t \<in> set ts. pnl t < 0) \<longrightarrow>
      0 < \<bar>?losses\<bar> \<and> profit_factor (calculate_metrics ts es b) = ?wins / \<bar>?losses\<bar>"
  proof
    assume ex: "\<exists>t \<in> set ts. pnl t < 0"
    then have neg: "?losses < 0" by (rule losses_sum)
    have ne: "ts \<noteq> []" using ex by auto
    show "0 < \<bar>?losses\<bar> \<and> profit_factor (calculate_metrics ts es b) = ?wins / \<bar>?losses\<bar>"
      using neg ne
      by (simp add: profit_factor_calculate raw_profit_factor_def gross_loss_explicit
            gross_profit_explicit)
  qed
  have b: "profit_factor (calculate_metrics [] es b) = 0"
    by (simp add: profit_factor_calculate)
  have c: "(\<forall>t \<in> set ts. \<not> pnl t < 0) \<and> (\<exists>t \<in> set ts. 0 < pnl t) \<longrightarrow>
      raw_profit_factor ?wins \<bar>?losses\<bar> = PInf
      \<and> profit_factor (calculate_metrics ts es b) = 0"
  proof
    assume h: "(\<forall>t \<in> set ts. \<not> pnl t < 0) \<and> (\<exists>t \<in> set ts. 0 < pnl t)"
    then have "filter (\<lambda>p. p < 0) (map pnl ts) = []" by (auto simp: filter_empty_conv)
    then have z: "?losses = 0" by simp
    have w: "0 < ?wins" using h by (intro wins_sum) blast
    show "raw_profit_factor ?wins \<bar>?losses\<bar> = PInf
      \<and> profit_factor (calculate_metrics ts es b) = 0"
      using z w
      by (simp add: profit_factor_calculate raw_profit_factor_def gross_loss_explicit
            gross_profit_explicit)
  qed
  have d: "total_trades (calculate_metrics ts es b) = 0 \<longrightarrow>
      win_rate (calculate_metrics ts es b) = 0"
    by (simp add: total_trades_calculate win_rate_calculate)
  have e: "trades st = [] \<longrightarrow>
      profit_factor (bt_calculate_metrics bt st es) = 0
      \<and> win_rate (bt_calculate_metrics bt st es) = 0"
    by (simp add: bt_calculate_metrics_def zero_metrics_def)
  have f: "profit_factor (res_metrics (empty_result bt)) = 0
      \<and> win_rate (res_metrics (empty_result bt)) = 0"
    by (simp add: empty_result_def zero_metrics_def)
  from a b c d e f show ?thesis by blast
qed

lemma pnl_sample_trade: "pnl (sample_trade p) = p"
  by (simp add: sample_trade_def)

theorem C9_profit_factor_convention_witness:
  "pnl (sample_trade (-50)) < 0
   \<and> profit_factor (calculate_metrics
         [sample_trade 100, sample_trade (-50), sample_trade (-50)] [] 10000) = 1
   \<and> \<not> pnl (sample_trade 100) < 0 \<and> \<not> pnl (sample_trade 50) < 0 \<and> 0 < pnl (sample_trade 100)
   \<and> profit_factor (calculate_metrics [sample_trade 100, sample_trade 50] [] 10000) = 0
   \<and> total_trades (calculate_metrics [] [] 10000) = 0
   \<and> win_rate (calculate_metrics [] [] 10000) = 0
   \<and> trades (init_state bt_units steady_rng) = []
   \<and> profit_factor (bt_calculate_metrics bt_units (init_state bt_units steady_rng) []) = 0"
proof -
  let ?mixed = "[sample_trade 100, sample_trade (-50), sample_trade (-50)]"
  let ?won = "[sample_trade 100, sample_trade 50]"
  have p: "pnl (sample_trade (-50)) < 0" "\<not> pnl (sample_trade 100) < 0"
      "\<not> pnl (sample_trade 50) < 0" "0 < pnl (sample_trade 100)"
    by (simp_all add: pnl_sample_trade)
  have ex: "\<exists>t \<in> set ?mixed. pnl t < 0" using p(1) by simp
  have sums: "sum_list (filter (\<lambda>p. 0 < p) (map pnl ?mixed)) = 100"
      "sum_list (filter (\<lambda>p. p < 0) (map pnl ?mixed)) = - 100"
    by (simp_all add: pnl_sample_trade)
  have "profit_factor (calculate_metrics ?mixed [] 10000) =
          sum_list (filter (\<lambda>p. 0 < p) (map pnl ?mixed))
            / \<bar>sum_list (filter (\<lambda>p. p < 0) (map pnl ?mixed))\<bar>"
    using C9_profit_factor_convention [of ?mixed "[]" 10000] ex by blast
  then have a: "profit_factor (calculate_metrics ?mixed [] 10000) = 1"
    unfolding sums by simp
  have h: "(\<forall>t \<in> set ?won. \<not> pnl t < 0) \<and> (\<exists>t \<in> set ?won. 0 < pnl t)"
    using p by simp
  have b: "profit_factor (calculate_metrics ?won [] 10000) = 0"
    using C9_profit_factor_convention [of ?won "[]" 10000] h by blast
  have t3: "total_trades (calculate_metrics [] [] 10000) = 0"
    by (simp add: calculate_metrics_def)
  have c: "win_rate (calculate_metrics [] [] 10000) = 0"
    using C9_profit_factor_convention [of "[]" "[]" 10000] t3 by blast
  have t4: "trades (init_state bt_units steady_rng) = []"
    by (simp add: init_state_def)
  have d: "profit_factor (bt_calculate_metrics bt_units (init_state bt_units steady_rng) []) = 0"
    using C9_profit_factor_convention [of "[]" "[]" 10000 "init_state bt_units steady_rng" bt_units] t4
    by blast
  show ?thesis using p a b t3 c t4 d by blast
qed

section \<open>Properties of the backtest loop\<close>

lemma exit_position_open:
  "open_positions (exit_position bt st pos b t r) = remove1 pos (open_positions st)"
  by (simp add: exit_position_def Let_def split: prod.splits)

lemma exit_position_curve:
  "equity_curve_points (exit_position bt st pos b t r) = equity_curve_points st"
  by (simp add: exit_position_def Let_def split: prod.splits)

lemma exit_position_trades:
  "\<exists>tr. trades (exit_position bt st pos b t r) = trades st @ [tr] \<and> exit_reason tr = r
        \<and> entry_price tr = pos_entry_price pos \<and> exit_ts tr = t"
  by (simp add: exit_position_def Let_def split: prod.splits)


lemma enter_position_curve:
  "equity_curve_points (enter_position bt st sg b t) = equity_curve_points st"
  by (simp add: enter_position_def Let_def split: prod.splits)

lemma enter_position_open:
  "open_positions (enter_position bt st sg b t) = open_positions st
   \<or> (\<exists>pos. open_positions (enter_position bt st sg b t) = open_positions st @ [pos]
        \<and> \<bar>pos_entry_price pos - pos_stop pos\<bar> > 0 \<and> pos_size pos > 0)"
  by (auto simp add: enter_position_def Let_def split: prod.splits)

lemma length_remove1_le: "length (remove1 x xs) \<le> length xs"
  by (induction xs) auto

lemma check_exits_loop_open_le:
  "length (open_positions (check_exits_loop bt b t ps st)) \<le> length (open_positions st)"
proof (induction ps arbitrary: st)
  case Nil
  then show ?case by simp
next
  case (Cons p ps)
  show ?case
  proof (cases "exit_check b p")
    case None
    then show ?thesis using Cons.IH [of st] by simp
  next
    case (Some r)
    have "length (open_positions (exit_position bt st p b t r)) \<le> length (open_positions st)"
      by (simp add: exit_position_open length_remove1_le)
    then show ?thesis using Some Cons.IH [of "exit_position bt st p b t r"] by simp
  qed
qed

lemma enter_loop_cap:
  "int (length (open_positions st)) \<le> max_positions bt \<Longrightarrow>
   int (length (open_positions (enter_loop bt b t rows st))) \<le> max_positions bt"
proof (induction rows arbitrary: st)
  case Nil
  then show ?case by simp
next
  case (Cons row rows)
  show ?case
  proof (cases "int (length (open_positions st)) \<ge> max_positions bt")
    case True
    then show ?thesis using Cons.prems by simp
  next
    case False
    have "int (length (open_positions (enter_position bt st row b t))) \<le> max_positions bt"
      using False enter_position_open [of bt st row b t] by auto
    then show ?thesis using False Cons.IH by simp
  qed
qed

lemma process_entries_cap:
  "int (length (open_positions st)) \<le> max_positions bt \<Longrightarrow>
   int (length (open_positions (process_entries bt m st b t))) \<le> max_positions bt"
  by (simp add: process_entries_def enter_loop_cap split: option.splits)

lemma process_bar_open:
  "open_positions (process_bar bt m st b) =
     open_positions (process_entries bt m (check_exits bt st b (bar_ts b)) b (bar_ts b))"
  by (simp add: process_bar_def Let_def)

lemma process_bar_cap:
  assumes "int (length (open_positions st)) \<le> max_positions bt"
  shows "int (length (open_positions (process_bar bt m st b))) \<le> max_positions bt"
proof -
  have "length (open_positions (check_exits bt st b (bar_ts b))) \<le> length (open_positions st)"
    by (simp add: check_exits_def check_exits_loop_open_le)
  then have "int (length (open_positions (check_exits bt st b (bar_ts b)))) \<le> max_positions bt"
    using assms by linarith
  then show ?thesis by (simp add: process_bar_open process_entries_cap)
qed

lemma run_states_cap:
  "int (length (open_positions st)) \<le> max_positions bt \<Longrightarrow>
   \<forall>s \<in> set (run_states bt m bars st). int (length (open_positions s)) \<le> max_positions bt"
proof (induction bars arbitrary: st)
  case Nil
  then show ?case by simp
next
  case (Cons b bars)
  have step: "int (length (open_positions (process_bar bt m st b))) \<le> max_positions bt"
    using Cons.prems by (rule process_bar_cap)
  show ?case using step Cons.IH [OF step] by (simp add: Let_def)
qed


lemma check_exits_loop_curve:
  "equity_curve_points (check_exits_loop bt b t ps st) = equity_curve_points st"
  by (induction ps arbitrary: st) (simp_all add: exit_position_curve split: option.splits)

lemma enter_loop_curve:
  "equity_curve_points (enter_loop bt b t rows st) = equity_curve_points st"
  by (induction rows arbitrary: st) (simp_all add: enter_position_curve)

lemma process_entries_curve:
  "equity_curve_points (process_entries bt m st b t) = equity_curve_points st"
  by (simp add: process_entries_def enter_loop_curve split: option.splits)

lemma process_bar_curve:
  "equity_curve_points (process_bar bt m st b) =
     equity_curve_points st @ [(bar_ts b, equity (process_bar bt m st b))]"
  by (simp add: process_bar_def Let_def process_entries_curve check_exits_def check_exits_loop_curve)

lemma run_loop_curve:
  "equity_curve_points (run_loop bt m bars st) =
     equity_curve_points st @ map2 (\<lambda>b s. (bar_ts b, equity s)) bars (run_states bt m bars st)"
  by (induction bars arbitrary: st) (simp_all add: Let_def process_bar_curve)

lemma force_close_loop_curve:
  "equity_curve_points (force_close_loop bt fb ps st) = equity_curve_points st"
  by (induction ps arbitrary: st) (simp_all add: exit_position_curve)

lemma force_close_all_curve:
  "equity_curve_points (force_close_all bt ohlc st) = equity_curve_points st"
  by (simp add: force_close_all_def force_close_loop_curve)

lemma run_states_length: "length (run_states bt m bars st) \<le> length bars"
  by (induction bars arbitrary: st) (simp_all add: Let_def)

lemma run_states_nonempty: "bars \<noteq> [] \<Longrightarrow> run_states bt m bars st \<noteq> []"
  by (cases bars) (simp_all add: Let_def)

lemma run_states_butlast:
  "\<forall>s \<in> set (butlast (run_states bt m bars st)). \<not> depleted s"
  by (induction bars arbitrary: st) (auto simp add: Let_def)

lemma run_states_stop:
  "length (run_states bt m bars st) < length bars \<Longrightarrow> depleted (last (run_states bt m bars st))"
proof (induction bars arbitrary: st)
  case Nil
  then show ?case by simp
next
  case (Cons b bars)
  show ?case
  proof (cases "depleted (process_bar bt m st b)")
    case True
    then show ?thesis by (simp add: Let_def)
  next
    case False
    then have len: "length (run_states bt m bars (process_bar bt m st b)) < length bars"
      using Cons.prems by (simp add: Let_def)
    then have "bars \<noteq> []" by auto
    then have "run_states bt m bars (process_bar bt m st b) \<noteq> []" by (rule run_states_nonempty)
    then show ?thesis using False Cons.IH [OF len] by (simp add: Let_def)
  qed
qed

lemma process_bar_first_equity:
  assumes "open_positions st = []" and "m (bar_ts b) = None"
  shows "equity (process_bar bt m st b) = balance st"
  using assms
  by (simp add: process_bar_def Let_def check_exits_def process_entries_def calculate_open_pnl_def)

lemma group_signals_None:
  "m t = None \<Longrightarrow> \<forall>s \<in> set sigs. sig_ts s \<noteq> t \<Longrightarrow> group_signals m sigs t = None"
  by (induction sigs arbitrary: m) auto

lemma group_signals_lookup:
  "group_signals m sigs t =
     (if (case m t of None \<Rightarrow> [] | Some l \<Rightarrow> l) @ filter (\<lambda>s. sig_ts s = t) sigs = [] \<and> m t = None
      then None
      else Some ((case m t of None \<Rightarrow> [] | Some l \<Rightarrow> l) @ filter (\<lambda>s. sig_ts s = t) sigs))"
  by (induction sigs arbitrary: m) (auto split: option.splits)














lemmas bt_eval = run_def run_final_state_def reset_state_def init_state_def
  process_bar_def check_exits_def process_entries_def
  enter_position_def exit_position_def simulate_fill_def random_uniform_def half_spread_def
  calculate_commission_def calculate_open_pnl_def position_pnl_def depleted_def
  force_close_all_def exit_check_def bt_calculate_metrics_def calculate_metrics_def
  drawdown_min_def series_min_def series_max_def series_mean_def opposite_def Let_def
  gross_profit_of_def gross_loss_of_def raw_profit_factor_def zero_metrics_def empty_result_def

lemmas scenario_eval = bt_units_def buy_signal_def depleting_bars_def mk_bar_def steady_rng_def

text \<open>
  C10.  With a non-negative cap, the number of open positions after every processed bar of
  a run is at most \<open>max_positions\<close>; exit checks never add a position; and the entry
  step changes the open list only from a state whose count is strictly below the cap.
\<close>

theorem C10_open_positions_capped:
  assumes "0 \<le> max_positions bt"
  shows "(\<forall>s \<in> set (run_states bt (group_signals Map.empty signals) ohlc (reset_state bt st0)).
            int (length (open_positions s)) \<le> max_positions bt)
       \<and> (\<forall>st b t. int (length (open_positions (check_exits bt st b t))) \<le> int (length (open_positions st)))
       \<and> (\<forall>st b t m. open_positions (process_entries bt m st b t) \<noteq> open_positions st
              \<longrightarrow> int (length (open_positions st)) < max_positions bt)
       \<and> (\<forall>st b t row rows. open_positions (enter_loop bt b t (row # rows) st) \<noteq> open_positions st
              \<longrightarrow> int (length (open_positions st)) < max_positions bt)"
proof -
  have "int (length (open_positions (reset_state bt st0))) \<le> max_positions bt"
    using assms by (simp add: reset_state_def)
  then have a: "\<forall>s \<in> set (run_states bt (group_signals Map.empty signals) ohlc (reset_state bt st0)).
            int (length (open_positions s)) \<le> max_positions bt"
    by (rule run_states_cap)
  have b: "\<forall>st b t. int (length (open_positions (check_exits bt st b t))) \<le> int (length (open_positions st))"
    by (simp add: check_exits_def check_exits_loop_open_le)
  have c: "\<forall>st b t m. open_positions (process_entries bt m st b t) \<noteq> open_positions st
              \<longrightarrow> int (length (open_positions st)) < max_positions bt"
    by (auto simp: process_entries_def)
  have d: "\<forall>st b t row rows. open_positions (enter_loop bt b t (row # rows) st) \<noteq> open_positions st
              \<longrightarrow> int (length (open_positions st)) < max_positions bt"
    by auto
  from a b c d show ?thesis by blast
qed

lemma depleting_states:
  "map (\<lambda>s. length (open_positions s))
     (run_states bt_units (group_signals Map.empty [buy_signal]) depleting_bars
        (reset_state bt_units (init_state bt_units steady_rng))) = [1, 1]"
  by (simp add: bt_eval scenario_eval)

theorem C10_open_positions_capped_witness:
  "0 \<le> max_positions bt_units
   \<and> int (length (open_positions (hd
        (run_states bt_units (group_signals Map.empty [buy_signal]) depleting_bars
           (reset_state bt_units (init_state bt_units steady_rng)))))) \<le> max_positions bt_units
   \<and> length (open_positions (hd
        (run_states bt_units (group_signals Map.empty [buy_signal]) depleting_bars
           (reset_state bt_units (init_state bt_units steady_rng))))) = 1"
proof -
  let ?states = "run_states bt_units (group_signals Map.empty [buy_signal]) depleting_bars
           (reset_state bt_units (init_state bt_units steady_rng))"
  have h: "0 \<le> max_positions bt_units" by (simp add: bt_units_def)
  have ne: "?states \<noteq> []" using depleting_states by auto
  then have mem: "hd ?states \<in> set ?states" by simp
  have one: "length (open_positions (hd ?states)) = 1"
    using depleting_states ne by (cases ?states) auto
  have "int (length (open_positions (hd ?states))) \<le> max_positions bt_units"
    using C10_open_positions_capped [OF h, of "[buy_signal]" depleting_bars "init_state bt_units steady_rng"] mem
    by blast
  then show ?thesis using h one by simp
qed

section \<open>Runs on concrete data\<close>

lemma run_depleting:
  "fst (run bt_units [buy_signal] depleting_bars (init_state bt_units steady_rng)) =
     Inr depleting_result"
  by (simp add: bt_eval scenario_eval depleting_result_def)

lemma run_late:
  "map_sum id res_equity_curve
     (fst (run bt_units [late_signal] depleting_bars (init_state bt_units steady_rng)))
    = Inr [(0, 10000), (1, -2000)]"
  by (simp add: bt_eval scenario_eval late_signal_def)

lemma first_run:
  "map_sum id (\<lambda>r. (map entry_price (res_trades r), net_profit (res_metrics r), res_equity_curve r))
     (fst (run bt_slip [buy_signal] quiet_bars (init_state bt_slip uneven_rng)))
   = Inr ([221/200], 17/100, [(0, 10000 - 1/100), (1, 10000 + 19/100)])"
  by (simp add: bt_eval scenario_eval bt_slip_def quiet_bars_def uneven_rng_def)

lemma second_run:
  "map_sum id (\<lambda>r. (map entry_price (res_trades r), net_profit (res_metrics r), res_equity_curve r))
     (fst (run bt_slip [buy_signal] quiet_bars
        (snd (run bt_slip [buy_signal] quiet_bars (init_state bt_slip uneven_rng)))))
   = Inr ([111/100], 16/100, [(0, 10000 - 2/100), (1, 10000 + 18/100)])"
  by (simp add: bt_eval scenario_eval bt_slip_def quiet_bars_def uneven_rng_def)

section \<open>Exit checks\<close>



















section \<open>The equity curve\<close>

lemma run_final_state_curve:
  "signals \<noteq> [] \<Longrightarrow>
   equity_curve_points (run_final_state bt signals ohlc st0) =
     map2 (\<lambda>b s. (bar_ts b, equity s)) ohlc
       (run_states bt (group_signals Map.empty signals) ohlc (reset_state bt st0))"
  by (simp add: run_final_state_def force_close_all_curve run_loop_curve reset_state_def)

lemma map2_fst_take:
  "length ys \<le> length xs \<Longrightarrow> map fst (map2 (\<lambda>b s. (f b, g s)) xs ys) = map f (take (length ys) xs)"
proof (induction xs arbitrary: ys)
  case Nil
  then show ?case by simp
next
  case (Cons x xs)
  then show ?case by (cases ys) simp_all
qed

lemma map2_snd_take:
  "length ys \<le> length xs \<Longrightarrow> map snd (map2 (\<lambda>b s. (f b, g s)) xs ys) = map g ys"
proof (induction xs arbitrary: ys)
  case Nil
  then show ?case by simp
next
  case (Cons x xs)
  then show ?case by (cases ys) simp_all
qed

lemma run_states_first_equity:
  assumes "\<forall>s \<in> set signals. sig_ts s \<noteq> bar_ts b"
  shows "equity (hd (run_states bt (group_signals Map.empty signals) (b # bs) (reset_state bt st0)))
           = initial_balance bt"
proof -
  have "group_signals Map.empty signals (bar_ts b) = None"
    using assms by (simp add: group_signals_None)
  then have "equity (process_bar bt (group_signals Map.empty signals) (reset_state bt st0) b)
               = balance (reset_state bt st0)"
    by (intro process_bar_first_equity) (simp_all add: reset_state_def)
  then show ?thesis by (simp add: Let_def reset_state_def)
qed

text \<open>
  C4, as the code has it.  When the strategy returns at least one signal and the series
  is not empty, the run returns an equity curve with exactly one point per processed bar:
  its timestamps are those of the first \<open>k\<close> bars and its values the equities after each of
  them, where the loop went through \<open>k \<ge> 1\<close> bars, none before the last left the account
  depleted, and \<open>k\<close> is the whole series unless the last one did.  The first value is the
  initial balance when no signal is timestamped at the first bar.  When the strategy
  returns no signal, the run returns the empty result, whose equity curve has no point.
\<close>

theorem C4_equity_curve_points:
  assumes "signals \<noteq> []" and "ohlc \<noteq> []"
  shows "(\<exists>r states. fst (run bt signals ohlc st0) = Inr r
      \<and> states = run_states bt (group_signals Map.empty signals) ohlc (reset_state bt st0)
      \<and> map fst (res_equity_curve r) = map bar_ts (take (length states) ohlc)
      \<and> map snd (res_equity_curve r) = map equity states
      \<and> 0 < length states \<and> length states \<le> length ohlc
      \<and> (\<forall>s \<in> set (butlast states). \<not> depleted s)
      \<and> (length states < length ohlc \<longrightarrow> depleted (last states))
      \<and> ((\<forall>s \<in> set signals. sig_ts s \<noteq> bar_ts (hd ohlc))
            \<longrightarrow> snd (hd (res_equity_curve r)) = initial_balance bt))
    \<and> fst (run bt [] ohlc st0) = Inr (empty_result bt)
    \<and> res_equity_curve (empty_result bt) = []"
proof -
  let ?states = "run_states bt (group_signals Map.empty signals) ohlc (reset_state bt st0)"
  let ?st' = "run_final_state bt signals ohlc st0"
  have ne: "?states \<noteq> []" using assms(2) by (rule run_states_nonempty)
  have len: "length ?states \<le> length ohlc" by (rule run_states_length)
  have curve: "equity_curve_points ?st' = map2 (\<lambda>b s. (bar_ts b, equity s)) ohlc ?states"
    using assms(1) by (rule run_final_state_curve)
  have fsts: "map fst (equity_curve_points ?st') = map bar_ts (take (length ?states) ohlc)"
    unfolding curve using len by (rule map2_fst_take)
  have snds: "map snd (equity_curve_points ?st') = map equity ?states"
    unfolding curve using len by (rule map2_snd_take)
  have cne: "equity_curve_points ?st' \<noteq> []"
    using snds ne by auto
  let ?r = "\<lparr> res_trades = trades ?st',
              res_metrics = bt_calculate_metrics bt ?st' (map snd (equity_curve_points ?st')),
              res_equity_curve = equity_curve_points ?st' \<rparr>"
  have res: "fst (run bt signals ohlc st0) = Inr ?r"
    using assms(1) cne by (simp add: run_def Let_def)
  have first: "(\<forall>s \<in> set signals. sig_ts s \<noteq> bar_ts (hd ohlc))
            \<longrightarrow> snd (hd (res_equity_curve ?r)) = initial_balance bt"
  proof
    assume no: "\<forall>s \<in> set signals. sig_ts s \<noteq> bar_ts (hd ohlc)"
    obtain b bs where ohlc: "ohlc = b # bs" using assms(2) by (cases ohlc) auto
    have "equity (hd ?states) = initial_balance bt"
      using no run_states_first_equity [of signals b bt bs st0] by (simp add: ohlc)
    moreover have "snd (hd (equity_curve_points ?st')) = hd (map snd (equity_curve_points ?st'))"
      using cne by (simp add: hd_map)
    ultimately show "snd (hd (res_equity_curve ?r)) = initial_balance bt"
      using snds ne by (simp add: hd_map)
  qed
  have "fst (run bt signals ohlc st0) = Inr ?r
      \<and> ?states = run_states bt (group_signals Map.empty signals) ohlc (reset_state bt st0)
      \<and> map fst (res_equity_curve ?r) = map bar_ts (take (length ?states) ohlc)
      \<and> map snd (res_equity_curve ?r) = map equity ?states
      \<and> 0 < length ?states \<and> length ?states \<le> length ohlc
      \<and> (\<forall>s \<in> set (butlast ?states). \<not> depleted s)
      \<and> (length ?states < length ohlc \<longrightarrow> depleted (last ?states))
      \<and> ((\<forall>s \<in> set signals. sig_ts s \<noteq> bar_ts (hd ohlc))
            \<longrightarrow> snd (hd (res_equity_curve ?r)) = initial_balance bt)"
    using res fsts snds ne len run_states_butlast [of bt _ ohlc] run_states_stop [of bt _ ohlc] first
    by simp
  then have with_signals: "\<exists>r states. fst (run bt signals ohlc st0) = Inr r
      \<and> states = run_states bt (group_signals Map.empty signals) ohlc (reset_state bt st0)
      \<and> map fst (res_equity_curve r) = map bar_ts (take (length states) ohlc)
      \<and> map snd (res_equity_curve r) = map equity states
      \<and> 0 < length states \<and> length states \<le> length ohlc
      \<and> (\<forall>s \<in> set (butlast states). \<not> depleted s)
      \<and> (length states < length ohlc \<longrightarrow> depleted (last states))
      \<and> ((\<forall>s \<in> set signals. sig_ts s \<noteq> bar_ts (hd ohlc))
            \<longrightarrow> snd (hd (res_equity_curve r)) = initial_balance bt)"
    by blast
  have "fst (run bt [] ohlc st0) = Inr (empty_result bt) \<and> res_equity_curve (empty_result bt) = []"
    by (simp add: run_def empty_result_def)
  with with_signals show ?thesis by blast
qed

theorem C4_equity_curve_points_witness:
  "[late_signal] \<noteq> [] \<and> depleting_bars \<noteq> []
   \<and> sig_ts late_signal \<noteq> bar_ts (hd depleting_bars)
   \<and> map_sum id (\<lambda>r. snd (hd (res_equity_curve r)))
        (fst (run bt_units [late_signal] depleting_bars (init_state bt_units steady_rng)))
       = Inr (initial_balance bt_units)
   \<and> map_sum id (\<lambda>r. map fst (res_equity_curve r))
        (fst (run bt_units [late_signal] depleting_bars (init_state bt_units steady_rng)))
       = Inr [0, 1]"
proof -
  have h1: "[late_signal] \<noteq> []" and h2: "depleting_bars \<noteq> []"
    by (simp_all add: depleting_bars_def)
  have h3: "sig_ts late_signal \<noteq> bar_ts (hd depleting_bars)"
    by (simp add: late_signal_def depleting_bars_def mk_bar_def)
  obtain r where r: "fst (run bt_units [late_signal] depleting_bars (init_state bt_units steady_rng)) = Inr r"
      and first: "(\<forall>s \<in> set [late_signal]. sig_ts s \<noteq> bar_ts (hd depleting_bars))
            \<longrightarrow> snd (hd (res_equity_curve r)) = initial_balance bt_units"
    using C4_equity_curve_points [OF h1 h2, of bt_units "init_state bt_units steady_rng"]
    by blast
  have a: "snd (hd (res_equity_curve r)) = initial_balance bt_units"
    using first h3 by simp
  have b: "res_equity_curve r = [(0, 10000), (1, -2000)]"
    using run_late r by simp
  show ?thesis using h1 h2 h3 a b r by simp
qed

theorem C4_no_signal_counterexample:
  "depleting_bars \<noteq> []
   \<and> map_sum id res_equity_curve
       (fst (run bt_units [] depleting_bars (init_state bt_units steady_rng))) = Inr []"
  by (simp add: run_def empty_result_def depleting_bars_def)

section \<open>Early stop on depletion\<close>

text \<open>
  C3, evaluated.  On \<open>depleting_bars\<close> the equity is \<open>-2000\<close> after the second bar
  (timestamp 1, close 1.04) and the loop stops there: the curve has the two points of
  timestamps 0 and 1.  The position still open is closed with reason \<open>end_of_data\<close>, but
  at timestamp 2 and at the close 1.2 of the third bar, which the loop never processed,
  and the net profit of 20000 comes from that bar.
\<close>

theorem C3_force_close_at_final_bar:
  "fst (run bt_units [buy_signal] depleting_bars (init_state bt_units steady_rng))
     = Inr depleting_result
   \<and> res_equity_curve depleting_result = [(0, 10000), (1, - 2000)]
   \<and> map bar_ts depleting_bars = [0, 1, 2]
   \<and> map bar_close depleting_bars = [11/10, 104/100, 12/10]
   \<and> map exit_reason (res_trades depleting_result) = [''end_of_data'']
   \<and> map exit_ts (res_trades depleting_result) = [2]
   \<and> map exit_price (res_trades depleting_result) = [12/10]
   \<and> net_profit (res_metrics depleting_result) = 20000"
  using run_depleting by (simp add: depleting_result_def depleting_bars_def mk_bar_def)

section \<open>Reproducibility\<close>

text \<open>
  C8, evaluated.  Two successive runs of one backtester on the same signals and bars, the
  second starting from the generator state the first left behind (nothing reseeds it):
  the entry fills, the net profit and the equity curves differ.
\<close>

theorem C8_successive_runs_differ:
  "map_sum id (\<lambda>r. (map entry_price (res_trades r), net_profit (res_metrics r), res_equity_curve r))
     (fst (run bt_slip [buy_signal] quiet_bars (init_state bt_slip uneven_rng)))
   = Inr ([221/200], 17/100, [(0, 10000 - 1/100), (1, 10000 + 19/100)])
   \<and> map_sum id (\<lambda>r. (map entry_price (res_trades r), net_profit (res_metrics r), res_equity_curve r))
     (fst (run bt_slip [buy_signal] quiet_bars
        (snd (run bt_slip [buy_signal] quiet_bars (init_state bt_slip uneven_rng)))))
   = Inr ([111/100], 16/100, [(0, 10000 - 2/100), (1, 10000 + 18/100)])"
  using first_run second_run by simp

section \<open>Fair value gaps\<close>













section \<open>The signal generator on concrete series\<close>

lemma two_zone_generated: "generate_signals grab_params two_zone_bars = two_zone_signals"
  by code_simp

lemma choch_len: "length choch_bars = 37"
  by code_simp

lemma choch_trend:
  "trend (detect_market_structure (take 37 choch_bars) (lookback example_params)) = BULLISH"
  by code_simp

lemma choch_fires:
  "detect_choch (take 37 choch_bars)
     (swings (detect_market_structure (take 37 choch_bars) (lookback example_params))) 0.5 14"
  by code_simp

lemma choch_no_grab:
  "detect_liquidity_grab choch_bars
        (swings (detect_market_structure choch_bars (lookback example_params)))
        (liquidity_grab_atr example_params) 3 (atr_period example_params) = []"
  by code_simp

lemma choch_zone:
  "map_option fvg_start_idx
     (List.find (fvg_buy_match 36 (bar_low (choch_bars ! 36))) (find_fvg choch_bars example_params))
    = Some 9"
  by code_simp

lemma choch_no_signal: "generate_signals example_params choch_bars = []"
  by code_simp

lemma confirm_ignores_choch: "\<not> bullish_confirm True None \<and> \<not> bearish_confirm True None"
  by code_simp

lemma flat_touch_generated: "generate_signals example_params flat_touch_bars = flat_touch_signals"
  by code_simp

lemma flat_touch_atr: "calculate_atr flat_touch_bars (atr_period example_params) ! 26 = 0"
  by code_simp

section \<open>Directional confirmation\<close>

text \<open>
  C1, evaluated.  At the last bar (index 36) of \<open>choch_bars\<close> the trend over the prefix is
  bullish, \<^verbatim>\<open>detect_choch\<close> over the prefix returns true, no liquidity grab has that grab
  index, and a bullish gap ending before the bar contains its low.  The confirmation
  expressions read an attribute of the boolean that does not exist and so never see the
  change of character: neither direction is confirmed, and the generator returns no
  signal for the whole series.
\<close>

theorem C1_choch_never_confirms:
  "length choch_bars = 37
   \<and> trend (detect_market_structure (take 37 choch_bars) (lookback example_params)) = BULLISH
   \<and> detect_choch (take 37 choch_bars)
        (swings (detect_market_structure (take 37 choch_bars) (lookback example_params))) 0.5 14
   \<and> List.find (\<lambda>g. grab_idx g = 36)
        (detect_liquidity_grab choch_bars
           (swings (detect_market_structure choch_bars (lookback example_params)))
           (liquidity_grab_atr example_params) 3 (atr_period example_params)) = None
   \<and> map_option fvg_start_idx
        (List.find (fvg_buy_match 36 (bar_low (choch_bars ! 36)))
           (find_fvg choch_bars example_params)) = Some 9
   \<and> \<not> bullish_confirm True None \<and> \<not> bearish_confirm True None
   \<and> generate_signals example_params choch_bars = []"
  using choch_len choch_trend choch_fires choch_zone confirm_ignores_choch choch_no_signal
  by (simp add: choch_no_grab)

section \<open>Signals per bar\<close>

text \<open>
  C2, evaluated.  On \<open>two_zone_bars\<close> the generator returns two buy signals stamped with
  the same bar 25: the order-block loop appends one and stops, and the gap loop that
  follows it appends a second one for the same direction.
\<close>

theorem C2_two_buy_signals_on_one_bar:
  "map (\<lambda>s. (sig_ts s, sig_side s, sig_reason s)) (generate_signals grab_params two_zone_bars)
     = [(25, Buy, ''OB+ChoCH/LQ''), (25, Buy, ''FVG+ChoCH/LQ'')]"
  by (simp add: two_zone_generated two_zone_signals_def)

section \<open>Risk of an emitted signal\<close>

lemma flat_touch_wf: "list_all well_formed_bar flat_touch_bars"
  by code_simp

text \<open>
  C5, evaluated.  The generator has no risk check.  On \<open>flat_touch_bars\<close> (every bar has
  its close between low and high) the average true range at bar 26 is 0 and the bar sits
  on the bottom 96.6 of the gap zone: the gap loop emits a buy signal whose stop and
  target equal its entry price, a computed risk of 0.
\<close>

theorem C5_zero_risk_signal_emitted:
  "list_all well_formed_bar flat_touch_bars
   \<and> calculate_atr flat_touch_bars (atr_period example_params) ! 26 = 0
   \<and> generate_signals example_params flat_touch_bars = flat_touch_signals
   \<and> map (\<lambda>s. (sig_ts s, sig_side s, sig_price s, sig_stop s, sig_tp s)) flat_touch_signals
        = [(26, Buy, 483/5, 94, 509/5), (26, Buy, 483/5, 483/5, 483/5)]
   \<and> map signal_risk flat_touch_signals = [13/5, 0]"
  using flat_touch_wf flat_touch_generated flat_touch_atr
  by (simp add: flat_touch_signals_def signal_risk_def)

end
